theory Spec2Isabelle
  imports Complex_Main
begin

section \<open>JavaScript values used by the dashboard\<close>

text \<open>
  The dashboard is a React front end. An optional field (absent, \<open>undefined\<close> or
  \<open>null\<close>) is modelled as \<open>option\<close>, an array as a list, and an object read through
  \<open>Object.entries\<close> as an association list in iteration order. A number of the response
  body is given by a real; the Numbers that the code computes with are those of the next
  section. The JavaScript operators \<open>||\<close>, \<open>&&\<close>, \<open>?.\<close> and the conditional test the
  truthiness of their left operand: a number is falsy when it is \<open>0\<close>, a string when it
  is empty, an absent value always; an object or an array that is present is truthy.
\<close>

text \<open>
  \<open>v || d\<close> on an optional number that enters no arithmetic, and on an optional object
  or array.
\<close>

definition num_or :: "real option \<Rightarrow> real \<Rightarrow> real" where
  "num_or v d = (case v of None \<Rightarrow> d | Some x \<Rightarrow> if x \<noteq> 0 then x else d)"

definition obj_or :: "'a option \<Rightarrow> 'a \<Rightarrow> 'a" where
  "obj_or v d = (case v of None \<Rightarrow> d | Some x \<Rightarrow> x)"

section \<open>Numbers\<close>

text \<open>
  A Number is a binary64 value: a finite one, an infinity or NaN. A finite Number is
  given by the real it stands for; the negative zero is not told apart from zero (it is
  falsy, compares and adds like zero, and \<open>toFixed\<close> prints it without a sign; only a
  division by it would tell, and the panel divides by an array length and by a total
  that it has tested to be positive).

  \<open>round64\<close> is the rounding of a real to the nearest Number, to the one with the even
  significand of two equally near, and to an infinity from \<open>2^1024 - 2^970\<close> on. The
  exponent of a magnitude is the largest \<open>e\<close> from -1022 to 1023 with \<open>2^e\<close> at most the
  magnitude, and -1022 if there is none; the significand is a multiple of \<open>2^(e - 52)\<close>.
\<close>

datatype number = Num real | PosInfinity | NegInfinity | NaN

definition round_even :: "real \<Rightarrow> int" where
  "round_even y =
     (let f = \<lfloor>y\<rfloor> in
      if y - real_of_int f < 1 / 2 then f
      else if y - real_of_int f > 1 / 2 then f + 1
      else if even f then f else f + 1)"

fun exponent_upto :: "nat \<Rightarrow> real \<Rightarrow> int" where
  "exponent_upto 0 a = - 1022"
| "exponent_upto (Suc n) a =
     (if 2 powi (int (Suc n) - 1022) \<le> a then int (Suc n) - 1022 else exponent_upto n a)"

definition exponent :: "real \<Rightarrow> int" where
  "exponent a = exponent_upto 2045 a"

definition round64 :: "real \<Rightarrow> number" where
  "round64 x =
     (let a = \<bar>x\<bar>;
          e = exponent a;
          y = real_of_int (round_even (a * 2 powi (52 - e))) * 2 powi (e - 52)
      in if y \<ge> 2 powi 1024 then (if x < 0 then NegInfinity else PosInfinity)
         else Num (if x < 0 then - y else y))"

text \<open>The operators \<open>+\<close>, \<open>-\<close>, \<open>*\<close>, \<open>/\<close>, \<open>>\<close> and \<open>>=\<close> on Numbers.\<close>

fun js_neg :: "number \<Rightarrow> number" where
  "js_neg (Num a) = Num (- a)"
| "js_neg PosInfinity = NegInfinity"
| "js_neg NegInfinity = PosInfinity"
| "js_neg NaN = NaN"

fun js_add :: "number \<Rightarrow> number \<Rightarrow> number" where
  "js_add NaN b = NaN"
| "js_add a NaN = NaN"
| "js_add (Num a) (Num b) = round64 (a + b)"
| "js_add PosInfinity NegInfinity = NaN"
| "js_add NegInfinity PosInfinity = NaN"
| "js_add PosInfinity b = PosInfinity"
| "js_add a PosInfinity = PosInfinity"
| "js_add NegInfinity b = NegInfinity"
| "js_add a NegInfinity = NegInfinity"

definition js_sub :: "number \<Rightarrow> number \<Rightarrow> number" where
  "js_sub a b = js_add a (js_neg b)"

fun js_mul :: "number \<Rightarrow> number \<Rightarrow> number" where
  "js_mul NaN b = NaN"
| "js_mul a NaN = NaN"
| "js_mul (Num a) (Num b) = round64 (a * b)"
| "js_mul (Num a) PosInfinity =
     (if a = 0 then NaN else if a < 0 then NegInfinity else PosInfinity)"
| "js_mul (Num a) NegInfinity =
     (if a = 0 then NaN else if a < 0 then PosInfinity else NegInfinity)"
| "js_mul PosInfinity (Num b) =
     (if b = 0 then NaN else if b < 0 then NegInfinity else PosInfinity)"
| "js_mul NegInfinity (Num b) =
     (if b = 0 then NaN else if b < 0 then PosInfinity else NegInfinity)"
| "js_mul PosInfinity PosInfinity = PosInfinity"
| "js_mul PosInfinity NegInfinity = NegInfinity"
| "js_mul NegInfinity PosInfinity = NegInfinity"
| "js_mul NegInfinity NegInfinity = PosInfinity"

fun js_div :: "number \<Rightarrow> number \<Rightarrow> number" where
  "js_div NaN b = NaN"
| "js_div a NaN = NaN"
| "js_div (Num a) (Num b) =
     (if b = 0 then (if a = 0 then NaN else if a < 0 then NegInfinity else PosInfinity)
      else round64 (a / b))"
| "js_div (Num a) PosInfinity = Num 0"
| "js_div (Num a) NegInfinity = Num 0"
| "js_div PosInfinity (Num b) = (if b < 0 then NegInfinity else PosInfinity)"
| "js_div NegInfinity (Num b) = (if b < 0 then PosInfinity else NegInfinity)"
| "js_div a b = NaN"

fun js_gt :: "number \<Rightarrow> number \<Rightarrow> bool" where
  "js_gt NaN b = False"
| "js_gt a NaN = False"
| "js_gt (Num a) (Num b) = (a > b)"
| "js_gt PosInfinity PosInfinity = False"
| "js_gt PosInfinity b = True"
| "js_gt a PosInfinity = False"
| "js_gt NegInfinity b = False"
| "js_gt a NegInfinity = True"

fun js_ge :: "number \<Rightarrow> number \<Rightarrow> bool" where
  "js_ge NaN b = False"
| "js_ge a NaN = False"
| "js_ge (Num a) (Num b) = (a \<ge> b)"
| "js_ge PosInfinity b = True"
| "js_ge a NegInfinity = True"
| "js_ge a PosInfinity = False"
| "js_ge NegInfinity b = False"

text \<open>A Number is falsy when it is zero or NaN; \<open>v || d\<close> on an optional Number.\<close>

fun js_truthy :: "number \<Rightarrow> bool" where
  "js_truthy (Num a) = (a \<noteq> 0)"
| "js_truthy NaN = False"
| "js_truthy PosInfinity = True"
| "js_truthy NegInfinity = True"

definition number_or :: "number option \<Rightarrow> number \<Rightarrow> number" where
  "number_or v d = (case v of None \<Rightarrow> d | Some x \<Rightarrow> if js_truthy x then x else d)"

text \<open>
  A number of the response body is given by a decimal that \<open>JSON.parse\<close> reads as it, its
  shortest one for instance; \<open>round64\<close> of the decimal is the Number that the code
  computes with. The NDVI and the yield enter no arithmetic and stay as they are given.
\<close>

definition parsed :: "real option \<Rightarrow> number option" where
  "parsed v = (case v of None \<Rightarrow> None | Some x \<Rightarrow> Some (round64 x))"

text \<open>
  \<open>x.toFixed(1)\<close>. Of a finite \<open>x\<close> below \<open>10^21\<close> in magnitude it is the decimal with
  one fractional digit nearest to \<open>x\<close>, the larger one in magnitude of two equally near,
  with a minus sign in front when \<open>x\<close> is negative: \<open>Decimal\<close> of the sign and of the
  number of tenths. Of any other \<open>x\<close> it is the text that \<open>String(x)\<close> gives, which
  \<open>Verbatim\<close> stands for. \<open>text_number\<close> is the Number that such a text is converted
  to when it is an operand of \<open>-\<close>.
\<close>

datatype fixed_text = Decimal bool nat | Verbatim number

fun toFixed1 :: "number \<Rightarrow> fixed_text" where
  "toFixed1 (Num x) =
     (if \<bar>x\<bar> \<ge> 10 ^ 21 then Verbatim (Num x)
      else Decimal (x < 0) (nat \<lfloor>\<bar>x\<bar> * 10 + 1 / 2\<rfloor>))"
| "toFixed1 v = Verbatim v"

fun text_number :: "fixed_text \<Rightarrow> number" where
  "text_number (Decimal negative k) = round64 ((if negative then - 1 else 1) * (real k / 10))"
| "text_number (Verbatim v) = v"

section \<open>Strings\<close>

text \<open>
  The decimal numeral of a natural number: the name of the property that an object has
  for an integer key.
\<close>

definition digit_char :: "nat \<Rightarrow> char" where
  "digit_char d = ''0123456789'' ! d"

fun show_nat :: "nat \<Rightarrow> string" where
  "show_nat n = (if n < 10 then [digit_char n] else show_nat (n div 10) @ [digit_char (n mod 10)])"

text \<open>
  \<open>parseInt(s)\<close> for a string that begins with neither white space, a sign nor \<open>0x\<close>:
  the Number of its longest prefix of decimal digits, NaN when that is empty.
\<close>

definition is_digit :: "char \<Rightarrow> bool" where
  "is_digit c = (c \<in> set ''0123456789'')"

definition digit_of :: "char \<Rightarrow> nat" where
  "digit_of c = of_char c - 48"

definition digits_value :: "string \<Rightarrow> nat" where
  "digits_value s = foldl (\<lambda>v c. 10 * v + digit_of c) 0 s"

definition parseInt :: "string \<Rightarrow> number" where
  "parseInt s =
     (let z = takeWhile is_digit s in
      if z = [] then NaN else round64 (real (digits_value z)))"

section \<open>The analysis result\<close>

text \<open>
  The response body of \<open>POST /analyze\<close>, as \<open>ResultsPanel\<close> reads it. The sections
  \<open>crop_recommendations\<close>, \<open>weather\<close>, \<open>pollen\<close> and \<open>solar\<close> are handed to
  their own cards unread and take no part in what follows.
\<close>

record rain_entry =
  date :: "string option"
  rain :: "real option"

record rainfall_statistics =
  total_rainfall :: "real option"

record rainfall_section =
  features :: "rain_entry list option"
  statistics :: "rainfall_statistics option"

record drought_data =
  status :: "string option"

text \<open>
  \<open>landcover\<close> maps a class code to a pixel count, both integers that are not negative.
  The list holds the entries in the order \<open>Object.entries\<close> and \<open>Object.values\<close>
  enumerate them. The property name of an entry is the decimal numeral of its code, and
  its value is the Number read from the decimal numeral of its count.
\<close>

type_synonym landcover_map = "(nat \<times> nat) list"

record analysis_result =
  ndvi :: "real option"
  rainfall :: "rainfall_section option"
  drought :: "drought_data option"
  landcover :: "landcover_map option"
  yield_prediction :: "real option"

section \<open>ResultsPanel: status badges\<close>

text \<open>
  An emoji is the list of its Unicode code points. A badge is the object
  \<open>{ status, class, emoji }\<close> that \<open>getNDVIStatus\<close> and \<open>getDroughtStatus\<close>
  return; its fields are named \<open>statusText\<close>, \<open>className\<close> and \<open>emoji\<close> here.
\<close>

type_synonym emoji = "nat list"

definition emoji_herb :: emoji where "emoji_herb = [0x1F33F]"
definition emoji_seedling :: emoji where "emoji_seedling = [0x1F331]"
definition emoji_rice :: emoji where "emoji_rice = [0x1F33E]"
definition emoji_desert :: emoji where "emoji_desert = [0x1F3DC, 0xFE0F]"
definition emoji_droplet :: emoji where "emoji_droplet = [0x1F4A7]"
definition emoji_warning :: emoji where "emoji_warning = [0x26A0, 0xFE0F]"
definition emoji_fire :: emoji where "emoji_fire = [0x1F525]"
definition emoji_question :: emoji where "emoji_question = [0x2753]"

record badge =
  statusText :: string
  className :: string
  emoji :: emoji

definition getNDVIStatus :: "real \<Rightarrow> badge" where
  "getNDVIStatus v =
     (if v \<ge> 0.6 then \<lparr>statusText = ''Excellent'', className = ''ndvi-healthy'', emoji = emoji_herb\<rparr>
      else if v \<ge> 0.4 then \<lparr>statusText = ''Good'', className = ''ndvi-healthy'', emoji = emoji_seedling\<rparr>
      else if v \<ge> 0.2 then \<lparr>statusText = ''Moderate'', className = ''ndvi-moderate'', emoji = emoji_rice\<rparr>
      else \<lparr>statusText = ''Poor'', className = ''ndvi-poor'', emoji = emoji_desert\<rparr>)"

text \<open>
  \<open>rainfall.reduce((sum, d) => sum + (d.rain || 0), 0)\<close>: a fold from the left with the
  addition of Numbers. The length of an array is a Number as it is.
\<close>

definition rain_sum :: "rain_entry list \<Rightarrow> number" where
  "rain_sum ds = foldl (\<lambda>sum d. js_add sum (number_or (parsed (rain d)) (Num 0))) (Num 0) ds"

text \<open>
  \<open>getDroughtStatus\<close>, second half: the statements after the \<open>if\<close> on the backend's
  drought data, reached when that test fails.
\<close>

definition droughtFromRainfall :: "rain_entry list option \<Rightarrow> badge" where
  "droughtFromRainfall rainfallArg =
     (case rainfallArg of
        None \<Rightarrow> \<lparr>statusText = ''Unknown'', className = ''status-warning'', emoji = emoji_question\<rparr>
      | Some ds \<Rightarrow>
          if length ds = 0 then
            \<lparr>statusText = ''Unknown'', className = ''status-warning'', emoji = emoji_question\<rparr>
          else
            (let avgRain = js_div (rain_sum ds) (Num (real (length ds))) in
             if js_ge avgRain (Num 5) then
               \<lparr>statusText = ''No Drought'', className = ''status-healthy'', emoji = emoji_droplet\<rparr>
             else if js_ge avgRain (Num 2) then
               \<lparr>statusText = ''Mild Drought'', className = ''status-warning'', emoji = emoji_warning\<rparr>
             else
               \<lparr>statusText = ''Severe Drought'', className = ''status-critical'', emoji = emoji_fire\<rparr>))"

text \<open>
  \<open>droughtData && droughtData.status\<close> is the status when the object is present and
  nothing otherwise; the \<open>if\<close> is taken when that value is a non-empty string.
\<close>

definition getDroughtStatus :: "rain_entry list option \<Rightarrow> drought_data option \<Rightarrow> badge" where
  "getDroughtStatus rainfallArg droughtData =
     (case (case droughtData of None \<Rightarrow> None | Some d \<Rightarrow> status d) of
        None \<Rightarrow> droughtFromRainfall rainfallArg
      | Some s \<Rightarrow>
          if s \<noteq> [] then
            (if s = ''Normal'' then
               \<lparr>statusText = ''No Drought'', className = ''status-healthy'', emoji = emoji_droplet\<rparr>
             else if s = ''Mild Drought'' then
               \<lparr>statusText = ''Mild Drought'', className = ''status-warning'', emoji = emoji_warning\<rparr>
             else if s = ''Moderate Drought'' then
               \<lparr>statusText = ''Moderate'', className = ''status-warning'', emoji = emoji_warning\<rparr>
             else \<lparr>statusText = s, className = ''status-critical'', emoji = emoji_fire\<rparr>)
          else droughtFromRainfall rainfallArg)"

section \<open>ResultsPanel: land cover and rainfall total\<close>

text \<open>
  \<open>LANDCOVER_CLASSES\<close>: name, colour and style class of the known class codes, under
  the property names that the object literal gives them.
\<close>

definition LANDCOVER_CLASSES :: "(string \<times> string \<times> string \<times> string) list" where
  "LANDCOVER_CLASSES =
     [(''10'', ''Tree Cover'', ''#22c55e'', ''forest''),
      (''20'', ''Shrubland'', ''#84cc16'', ''forest''),
      (''30'', ''Grassland'', ''#a3e635'', ''forest''),
      (''40'', ''Cropland'', ''#10b981'', ''cropland''),
      (''50'', ''Built-up'', ''#64748b'', ''urban''),
      (''60'', ''Bare/Sparse'', ''#d4a574'', ''urban''),
      (''70'', ''Snow/Ice'', ''#e0f2fe'', ''water''),
      (''80'', ''Water'', ''#3b82f6'', ''water''),
      (''90'', ''Wetland'', ''#06b6d4'', ''water''),
      (''95'', ''Mangroves'', ''#059669'', ''forest''),
      (''100'', ''Moss/Lichen'', ''#65a30d'', ''forest'')]"

text \<open>
  \<open>LANDCOVER_CLASSES[code]?.f || d\<close>, for the property name \<open>code\<close>: the field of the
  table entry when there is one under that name and the field is a non-empty string, the
  default otherwise.
\<close>

definition class_field ::
  "string \<Rightarrow> (string \<times> string \<times> string \<Rightarrow> string) \<Rightarrow> string \<Rightarrow> string" where
  "class_field code f d =
     (case map_of LANDCOVER_CLASSES code of
        None \<Rightarrow> d
      | Some e \<Rightarrow> if f e \<noteq> [] then f e else d)"

text \<open>
  The \<open>percent\<close> of an entry is the string of \<open>toFixed(1)\<close> or the Number 0;
  \<open>percent_number\<close> is the Number it stands for in \<open>b.percent - a.percent\<close>.
\<close>

datatype percent_value = PercentText fixed_text | PercentNumber number

fun percent_number :: "percent_value \<Rightarrow> number" where
  "percent_number (PercentText t) = text_number t"
| "percent_number (PercentNumber v) = v"

record landcover_stat =
  code :: number
  name :: string
  color :: string
  cssClass :: string
  percent :: percent_value

text \<open>
  \<open>Array.prototype.sort(cmp)\<close> is a stable sort: an element goes behind another one
  when \<open>cmp\<close> of the two is positive, and elements that \<open>cmp\<close> does not separate (it
  gives zero or NaN) keep their order. It is modelled by insertion from the right end.
\<close>

fun insert_by :: "('a \<Rightarrow> 'a \<Rightarrow> number) \<Rightarrow> 'a \<Rightarrow> 'a list \<Rightarrow> 'a list" where
  "insert_by cmp x [] = [x]"
| "insert_by cmp x (y # ys) =
     (if js_gt (cmp x y) (Num 0) then y # insert_by cmp x ys else x # y # ys)"

definition sort_by :: "('a \<Rightarrow> 'a \<Rightarrow> number) \<Rightarrow> 'a list \<Rightarrow> 'a list" where
  "sort_by cmp xs = foldr (insert_by cmp) xs []"

definition totalPixels :: "landcover_map \<Rightarrow> number" where
  "totalPixels lc =
     foldl (\<lambda>sum val. js_add sum val) (Num 0) (map (\<lambda>(c, count). round64 (real count)) lc)"

definition landcover_entry :: "number \<Rightarrow> nat \<times> nat \<Rightarrow> landcover_stat" where
  "landcover_entry tot e =
     (case e of (c, count) \<Rightarrow>
        \<lparr>code = parseInt (show_nat c),
         name = class_field (show_nat c) (\<lambda>(n, col, cl). n) (''Class '' @ show_nat c),
         color = class_field (show_nat c) (\<lambda>(n, col, cl). col) ''#64748b'',
         cssClass = class_field (show_nat c) (\<lambda>(n, col, cl). cl) ''urban'',
         percent =
           (if js_gt tot (Num 0) then
              PercentText (toFixed1 (js_mul (js_div (round64 (real count)) tot) (Num 100)))
            else PercentNumber (Num 0))\<rparr>)"

definition landcoverStats :: "landcover_map \<Rightarrow> landcover_stat list" where
  "landcoverStats lc =
     take 5 (sort_by (\<lambda>a b. js_sub (percent_number (percent b)) (percent_number (percent a)))
               (map (landcover_entry (totalPixels lc)) lc))"

text \<open>The text of the "Total Rain (mm)" card: a \<open>toFixed(1)\<close> string or \<open>'N/A'\<close>.\<close>

datatype rain_total = Fixed fixed_text | NotAvailable

definition rainTotal :: "rainfall_statistics \<Rightarrow> rain_entry list \<Rightarrow> rain_total" where
  "rainTotal rainfallStats rainfallData =
     (let otherwise =
            (if length rainfallData > 0 then Fixed (toFixed1 (rain_sum rainfallData))
             else NotAvailable)
      in case parsed (total_rainfall rainfallStats) of
           None \<Rightarrow> otherwise
         | Some t \<Rightarrow> if js_truthy t then Fixed (toFixed1 t) else otherwise)"

section \<open>ResultsPanel: what the panel shows\<close>

text \<open>
  The values the body of \<open>ResultsPanel\<close> computes from a result and renders into the
  report, under the names of its constants.
\<close>

record report =
  ndviValue :: real
  ndviStatus :: badge
  droughtStatus :: badge
  landcoverShown :: "landcover_stat list"
  totalRain :: rain_total
  yieldPrediction :: real

definition rainfallData_of :: "analysis_result \<Rightarrow> rain_entry list" where
  "rainfallData_of results =
     obj_or (case rainfall results of None \<Rightarrow> None | Some r \<Rightarrow> features r) []"

definition rainfallStats_of :: "analysis_result \<Rightarrow> rainfall_statistics" where
  "rainfallStats_of results =
     obj_or (case rainfall results of None \<Rightarrow> None | Some r \<Rightarrow> statistics r)
       \<lparr>total_rainfall = None\<rparr>"

definition summarise :: "analysis_result \<Rightarrow> report" where
  "summarise results =
     (let ndviValue = num_or (ndvi results) 0;
          rainfallData = rainfallData_of results;
          rainfallStats = rainfallStats_of results;
          droughtData = obj_or (drought results) \<lparr>status = None\<rparr>;
          lc = obj_or (landcover results) []
      in \<lparr>ndviValue = ndviValue,
          ndviStatus = getNDVIStatus ndviValue,
          droughtStatus = getDroughtStatus (Some rainfallData) (Some droughtData),
          landcoverShown = landcoverStats lc,
          totalRain = rainTotal rainfallStats rainfallData,
          yieldPrediction = num_or (yield_prediction results) 0\<rparr>)"

text \<open>
  \<open>ResultsPanel\<close> shows the error when one is set, the empty state when there is no
  result, and the report otherwise.
\<close>

datatype panel = ErrorPanel string | NoAnalysisYet | Report report

definition ResultsPanel :: "analysis_result option \<Rightarrow> string option \<Rightarrow> panel" where
  "ResultsPanel results err =
     (case (case err of None \<Rightarrow> None | Some e \<Rightarrow> if e \<noteq> [] then Some e else None) of
        Some e \<Rightarrow> ErrorPanel e
      | None \<Rightarrow> (case results of None \<Rightarrow> NoAnalysisYet | Some r \<Rightarrow> Report (summarise r)))"

section \<open>App: the selected area\<close>

record latlng =
  lat :: real
  lng :: real

datatype draw_mode = CircleMode | PolygonMode

text \<open>
  The state of \<open>App\<close>: one field for each \<open>useState\<close> that the handlers below read
  or write. \<open>polygon\<close> is the overlay object that the drawing manager hands to
  \<open>handlePolygonComplete\<close>, named by a handle; \<open>onMap\<close> is the set of such overlays
  that the map widget shows, which \<open>polygon.setMap(null)\<close> takes the overlay out of.
\<close>

record app =
  userLocation :: "latlng option"
  polygon :: "nat option"
  polygonPath :: "latlng list"
  circleCenter :: "latlng option"
  circleRadius :: real
  drawMode :: "draw_mode option"
  showDrawOptions :: bool
  isLoading :: bool
  analysisResults :: "analysis_result option"
  error :: "string option"
  onMap :: "nat set"

text \<open>
  \<open>circleToPolygon\<close>: the \<open>for\<close> loop over \<open>i\<close>, with the array \<open>points\<close> built so
  far, and the function that starts it at \<open>i = 0\<close> with no points.
\<close>

function circle_loop :: "latlng \<Rightarrow> real \<Rightarrow> nat \<Rightarrow> nat \<Rightarrow> latlng list \<Rightarrow> latlng list" where
  "circle_loop center radius numPoints i points =
     (if i < numPoints then
        (let angle = (real i / real numPoints) * 2 * pi;
             la = lat center + (radius / 111320) * cos angle;
             ln = lng center + (radius / (111320 * cos (lat center * pi / 180))) * sin angle
         in circle_loop center radius numPoints (i + 1) (points @ [\<lparr>lat = la, lng = ln\<rparr>]))
      else points)"
  by pat_completeness auto
termination
  by (relation "measure (\<lambda>(center, radius, numPoints, i, points). numPoints - i)") auto

definition circleToPolygon :: "latlng \<Rightarrow> real \<Rightarrow> nat \<Rightarrow> latlng list" where
  "circleToPolygon center radius numPoints = circle_loop center radius numPoints 0 []"

text \<open>\<open>handleMapClick\<close>, given the clicked location \<open>e.latLng\<close>.\<close>

definition handleMapClick :: "latlng \<Rightarrow> app \<Rightarrow> app" where
  "handleMapClick clickedLocation s =
     (if drawMode s = Some CircleMode then
        s\<lparr>circleCenter := Some clickedLocation,
          polygonPath := circleToPolygon clickedLocation (circleRadius s) 32,
          drawMode := None,
          showDrawOptions := False\<rparr>
      else s)"

definition handleUseMyLocation :: "app \<Rightarrow> app" where
  "handleUseMyLocation s =
     (case userLocation s of
        Some loc \<Rightarrow>
          s\<lparr>circleCenter := Some loc,
            polygonPath := circleToPolygon loc (circleRadius s) 32,
            drawMode := None,
            showDrawOptions := False\<rparr>
      | None \<Rightarrow>
          s\<lparr>error := Some (''Please enable location first by clicking '' @ [CHR 0x22] @
                 ''Enable Location'' @ [CHR 0x22])\<rparr>)"

text \<open>
  \<open>handlePolygonComplete\<close>, given the handle of the finished overlay and the points
  of its path.
\<close>

definition handlePolygonComplete :: "nat \<Rightarrow> latlng list \<Rightarrow> app \<Rightarrow> app" where
  "handlePolygonComplete poly path s =
     s\<lparr>polygon := Some poly, polygonPath := path, drawMode := None, showDrawOptions := False\<rparr>"

definition handleCancelDrawing :: "app \<Rightarrow> app" where
  "handleCancelDrawing s =
     (case polygon s of
        Some p \<Rightarrow> s\<lparr>onMap := onMap s - {p}, polygon := None, drawMode := None,
                     showDrawOptions := False\<rparr>
      | None \<Rightarrow> s\<lparr>drawMode := None, showDrawOptions := False\<rparr>)"

definition handleClearBoundary :: "app \<Rightarrow> app" where
  "handleClearBoundary s =
     (case polygon s of Some p \<Rightarrow> s\<lparr>onMap := onMap s - {p}\<rparr> | None \<Rightarrow> s)
       \<lparr>polygon := None, polygonPath := [], circleCenter := None, analysisResults := None,
        drawMode := None\<rparr>"

text \<open>
  What \<open>App\<close> draws for the selection: the \<open>Circle\<close> when there is a circle centre,
  the \<open>Polygon\<close> of the path when there is neither a finished overlay nor a circle.
\<close>

definition showsCircle :: "app \<Rightarrow> bool" where
  "showsCircle s = (circleCenter s \<noteq> None)"

definition showsPolygon :: "app \<Rightarrow> bool" where
  "showsPolygon s = (polygon s = None \<and> length (polygonPath s) > 0 \<and> circleCenter s = None)"

section \<open>App: the analysis request\<close>

text \<open>
  A coordinate pair is the array \<open>[lng, lat]\<close>. \<open>coordinates[0]\<close> is \<open>undefined\<close>
  on an empty array, so an element of the ring is optional.
\<close>

type_synonym ring = "real list option list"

definition js_index :: "'a option list \<Rightarrow> nat \<Rightarrow> 'a option" where
  "js_index xs i = (if i < length xs then xs ! i else None)"

record geometry =
  geometryType :: string
  coordinates :: "ring list"

record request =
  path :: string
  geometry :: geometry
  timeout :: nat

definition build_geometry :: "latlng list \<Rightarrow> geometry" where
  "build_geometry pts =
     (let coords = map (\<lambda>point. Some [lng point, lat point]) pts;
          coords' = coords @ [js_index coords 0]
      in \<lparr>geometryType = ''Polygon'', coordinates = [coords']\<rparr>)"

text \<open>
  How the \<open>axios.post\<close> settles: with the response body, or with an error whose
  \<open>response\<close>, its \<open>data\<close> and the \<open>error\<close> field of that may each be missing (a
  network error or a timeout has no response).
\<close>

record error_body =
  errorField :: "string option"

record http_response =
  responseData :: "error_body option"

record axios_error =
  response :: "http_response option"

datatype outcome = Resolved "analysis_result option" | Rejected axios_error

text \<open>
  \<open>handleAnalyze\<close> up to the \<open>await\<close>: the new state and the request sent, if any.
\<close>

definition analyze_begin :: "app \<Rightarrow> app \<times> request option" where
  "analyze_begin s =
     (if length (polygonPath s) < 3 then
        (s\<lparr>error := Some ''Please select a farm area first.''\<rparr>, None)
      else
        (s\<lparr>isLoading := True, error := None\<rparr>,
         Some \<lparr>path = ''/analyze'', geometry = build_geometry (polygonPath s),
               timeout = 120000\<rparr>))"

text \<open>\<open>err.response?.data?.error || 'Failed to analyze the area. Please try again.'\<close>\<close>

definition failure_message :: "axios_error \<Rightarrow> string" where
  "failure_message err =
     (case (case response err of
              None \<Rightarrow> None
            | Some resp \<Rightarrow> (case responseData resp of None \<Rightarrow> None | Some d \<Rightarrow> errorField d)) of
        None \<Rightarrow> ''Failed to analyze the area. Please try again.''
      | Some m \<Rightarrow> if m \<noteq> [] then m else ''Failed to analyze the area. Please try again.'')"

text \<open>\<open>handleAnalyze\<close> after the \<open>await\<close>: \<open>try\<close> or \<open>catch\<close>, then \<open>finally\<close>.\<close>

definition analyze_settle :: "outcome \<Rightarrow> app \<Rightarrow> app" where
  "analyze_settle out s =
     (case out of
        Resolved d \<Rightarrow> s\<lparr>analysisResults := d\<rparr>
      | Rejected err \<Rightarrow> s\<lparr>error := Some (failure_message err)\<rparr>)
       \<lparr>isLoading := False\<rparr>"

text \<open>
  \<open>handleAnalyze\<close> as a whole, against a service that answers each request: the final
  state and the requests that were sent.
\<close>

definition handleAnalyze :: "(request \<Rightarrow> outcome) \<Rightarrow> app \<Rightarrow> app \<times> request list" where
  "handleAnalyze service s =
     (case analyze_begin s of
        (s', None) \<Rightarrow> (s', [])
      | (s', Some req) \<Rightarrow> (analyze_settle (service req) s', [req]))"

section \<open>Notions of the specification\<close>

text \<open>
  The specification speaks of the fields of a result through these readings: the NDVI
  with 0 for an absent field, the rain of an entry as a Number with 0 for a missing value,
  the drought status when it is a non-empty string, the rainfall series when there is
  one, and the total of the rainfall statistics when it is given. A sum of Numbers is
  taken from the left, each addition rounded.
\<close>

definition ndvi_or_zero :: "analysis_result \<Rightarrow> real" where
  "ndvi_or_zero r = (case ndvi r of None \<Rightarrow> 0 | Some x \<Rightarrow> x)"

definition rain_or_zero :: "rain_entry \<Rightarrow> number" where
  "rain_or_zero d = (case rain d of None \<Rightarrow> Num 0 | Some x \<Rightarrow> round64 x)"

definition binary64_sum :: "number list \<Rightarrow> number" where
  "binary64_sum vs = foldl js_add (Num 0) vs"

definition drought_status :: "analysis_result \<Rightarrow> string option" where
  "drought_status r =
     (case drought r of
        None \<Rightarrow> None
      | Some d \<Rightarrow> (case status d of None \<Rightarrow> None | Some s \<Rightarrow> if s = [] then None else Some s))"

definition rain_series :: "analysis_result \<Rightarrow> rain_entry list option" where
  "rain_series r = (case rainfall r of None \<Rightarrow> None | Some rf \<Rightarrow> features rf)"

definition stated_total :: "analysis_result \<Rightarrow> real option" where
  "stated_total r =
     (case rainfall r of
        None \<Rightarrow> None
      | Some rf \<Rightarrow> (case statistics rf of None \<Rightarrow> None | Some st \<Rightarrow> total_rainfall st))"

text \<open>
  The drought classes of the specification, each as the badge that the panel renders for
  it. \<open>SevereOrWorse\<close> carries the label it is shown with.
\<close>

definition NoDrought :: badge where
  "NoDrought =
     \<lparr>statusText = ''No Drought'', className = ''status-healthy'', emoji = emoji_droplet\<rparr>"

definition MildDrought :: badge where
  "MildDrought =
     \<lparr>statusText = ''Mild Drought'', className = ''status-warning'', emoji = emoji_warning\<rparr>"

definition ModerateDrought :: badge where
  "ModerateDrought =
     \<lparr>statusText = ''Moderate'', className = ''status-warning'', emoji = emoji_warning\<rparr>"

definition SevereOrWorse :: "string \<Rightarrow> badge" where
  "SevereOrWorse label =
     \<lparr>statusText = label, className = ''status-critical'', emoji = emoji_fire\<rparr>"

definition UnknownDrought :: badge where
  "UnknownDrought =
     \<lparr>statusText = ''Unknown'', className = ''status-warning'', emoji = emoji_question\<rparr>"

text \<open>
  The rainfall total in the words of the specification: the total of the statistics if it
  is present, whatever its value; otherwise the sum over the series if a series exists;
  otherwise unavailable.
\<close>

definition claimed_rain_total :: "analysis_result \<Rightarrow> rain_total" where
  "claimed_rain_total r =
     (case stated_total r of
        Some t \<Rightarrow> Fixed (toFixed1 (round64 t))
      | None \<Rightarrow>
          (case rain_series r of
             Some ds \<Rightarrow> Fixed (toFixed1 (binary64_sum (map rain_or_zero ds)))
           | None \<Rightarrow> NotAvailable))"

text \<open>
  The number that a percent shows, its tenths or the Number 0, and the percents that are
  the Number 0 or print from 0.0 to 100.0.
\<close>

fun shown_value :: "percent_value \<Rightarrow> real" where
  "shown_value (PercentText (Decimal negative k)) = (if negative then - 1 else 1) * (real k / 10)"
| "shown_value (PercentNumber (Num x)) = x"
| "shown_value p = 0"

definition percent_in_range :: "percent_value \<Rightarrow> bool" where
  "percent_in_range p =
     (p = PercentNumber (Num 0) \<or> (\<exists>k\<le>1000. p = PercentText (Decimal False k)))"

text \<open>The message that the server sent with a failure, if the response carries one.\<close>

definition server_message :: "axios_error \<Rightarrow> string option" where
  "server_message err =
     (case response err of
        None \<Rightarrow> None
      | Some resp \<Rightarrow> (case responseData resp of None \<Rightarrow> None | Some d \<Rightarrow> errorField d))"

section \<open>Example inputs\<close>

definition absent_result :: analysis_result where
  "absent_result =
     \<lparr>ndvi = None, rainfall = None, drought = None, landcover = None, yield_prediction = None\<rparr>"

definition example_result :: analysis_result where
  "example_result =
     \<lparr>ndvi = Some 0.6,
      rainfall = Some \<lparr>features = Some [\<lparr>date = None, rain = Some 1\<rparr>,
                                         \<lparr>date = None, rain = Some 2\<rparr>],
                       statistics = Some \<lparr>total_rainfall = Some 42.5\<rparr>\<rparr>,
      drought = Some \<lparr>status = Some ''Severe Drought''\<rparr>,
      landcover = Some [(40, 80), (80, 20)],
      yield_prediction = None\<rparr>"

definition example_state :: app where
  "example_state =
     \<lparr>userLocation = None, polygon = None, polygonPath = [], circleCenter = None,
      circleRadius = 250, drawMode = Some CircleMode, showDrawOptions = True,
      isLoading = False, analysisResults = None, error = None, onMap = {}\<rparr>"

definition example_triangle :: app where
  "example_triangle =
     \<lparr>userLocation = None, polygon = Some 7,
      polygonPath = [\<lparr>lat = 10, lng = 20\<rparr>, \<lparr>lat = 10, lng = 21\<rparr>, \<lparr>lat = 11, lng = 20\<rparr>],
      circleCenter = None, circleRadius = 250, drawMode = None, showDrawOptions = False,
      isLoading = False, analysisResults = Some example_result, error = None, onMap = {7}\<rparr>"

definition example_short :: app where
  "example_short =
     \<lparr>userLocation = None, polygon = None,
      polygonPath = [\<lparr>lat = 10, lng = 20\<rparr>, \<lparr>lat = 10, lng = 21\<rparr>],
      circleCenter = None, circleRadius = 250, drawMode = None, showDrawOptions = False,
      isLoading = False, analysisResults = Some example_result, error = None, onMap = {}\<rparr>"

section \<open>Properties of the numbers\<close>

declare show_nat.simps [simp del]
declare circle_loop.simps [simp del]

subsection \<open>Rounding\<close>

lemma round_even_near: "\<bar>real_of_int (round_even y) - y\<bar> \<le> 1 / 2"
  unfolding round_even_def Let_def by (auto; linarith)

lemma round_even_int: "round_even (real_of_int z) = z"
  by (simp add: round_even_def)

lemma round_even_nonneg: "0 \<le> y \<Longrightarrow> 0 \<le> round_even y"
  unfolding round_even_def Let_def by (auto; linarith)

lemma round_even_unique:
  assumes "\<bar>real_of_int m - y\<bar> < 1 / 2"
  shows "round_even y = m"
proof -
  define fl where "fl = real_of_int \<lfloor>y\<rfloor>"
  have f: "fl \<le> y" "y < fl + 1" unfolding fl_def by linarith+
  show ?thesis
  proof (cases "y - fl < 1 / 2")
    case True
    with assms f have "real_of_int m < fl + 1" "fl - 1 < real_of_int m" by linarith+
    then have "real_of_int m < real_of_int (\<lfloor>y\<rfloor> + 1)"
      and "real_of_int (\<lfloor>y\<rfloor> - 1) < real_of_int m" by (simp_all add: fl_def)
    then have "m = \<lfloor>y\<rfloor>" unfolding of_int_less_iff by linarith
    with True show ?thesis by (simp add: round_even_def fl_def)
  next
    case False
    with assms f have "fl < real_of_int m" "real_of_int m < fl + 2"
      by linarith+
    then have "real_of_int \<lfloor>y\<rfloor> < real_of_int m"
      and "real_of_int m < real_of_int (\<lfloor>y\<rfloor> + 2)" by (simp_all add: fl_def)
    then have m: "m = \<lfloor>y\<rfloor> + 1" unfolding of_int_less_iff by linarith
    then have "real_of_int m = fl + 1" by (simp add: fl_def)
    with assms have "y - fl > 1 / 2" by linarith
    with m show ?thesis by (simp add: round_even_def fl_def)
  qed
qed

lemma exponent_upto_lower: "- 1022 \<le> exponent_upto n a"
  by (induction n) auto

lemma exponent_upto_below:
  "a < 2 powi k \<Longrightarrow> - 1022 < k \<Longrightarrow> exponent_upto n a < k"
proof (induction n)
  case 0
  then show ?case by simp
next
  case (Suc n)
  show ?case
  proof (cases "2 powi (int (Suc n) - 1022) \<le> a")
    case True
    with Suc.prems have "(2::real) powi (int (Suc n) - 1022) < 2 powi k" by linarith
    then have "int (Suc n) - 1022 < k"
      using power_int_increasing [of k "int (Suc n) - 1022" "2::real"] by (cases "int (Suc n) - 1022 < k") auto
    with True show ?thesis by simp
  next
    case False
    with Suc show ?thesis by simp
  qed
qed

lemma exponent_upto_eq:
  "2 powi e \<le> a \<Longrightarrow> a < 2 powi (e + 1) \<Longrightarrow> - 1022 \<le> e \<Longrightarrow> e \<le> int n - 1022 \<Longrightarrow>
   exponent_upto n a = e"
proof (induction n)
  case 0
  then show ?case by simp
next
  case (Suc n)
  show ?case
  proof (cases "e = int (Suc n) - 1022")
    case True
    with Suc.prems show ?thesis by simp
  next
    case False
    with Suc.prems have le: "e \<le> int n - 1022" by simp
    then have "e + 1 \<le> int (Suc n) - 1022" by simp
    then have "(2::real) powi (e + 1) \<le> 2 powi (int (Suc n) - 1022)"
      by (intro power_int_increasing) simp_all
    with Suc.prems have "\<not> 2 powi (int (Suc n) - 1022) \<le> a" by linarith
    with Suc.IH [OF Suc.prems(1,2,3) le] show ?thesis by simp
  qed
qed

lemma exponent_upto_small: "a < 2 powi (- 1022) \<Longrightarrow> exponent_upto n a = - 1022"
proof (induction n)
  case 0
  then show ?case by simp
next
  case (Suc n)
  have "(2::real) powi (- 1022) \<le> 2 powi (int (Suc n) - 1022)"
    by (intro power_int_increasing) simp_all
  with Suc show ?case by simp
qed

lemma exponent_zero: "exponent 0 = - 1022"
  unfolding exponent_def by (rule exponent_upto_small) simp

lemma round64_zero: "round64 0 = Num 0"
  by (simp add: round64_def exponent_zero round_even_def)

lemma round64_bounded:
  assumes "\<bar>x\<bar> < 2 powi k" "- 1022 < k" "k \<le> 1023"
  shows "\<exists>y. round64 x = Num y \<and> \<bar>y - x\<bar> \<le> 2 powi (k - 54) \<and>
             (0 \<le> x \<longrightarrow> 0 \<le> y) \<and> (x \<le> 0 \<longrightarrow> y \<le> 0)"
proof -
  define a where "a = \<bar>x\<bar>"
  define e where "e = exponent a"
  define z where "z = a * 2 powi (52 - e)"
  define m where "m = real_of_int (round_even z)"
  define y where "y = m * 2 powi (e - 52)"
  have e1: "e < k" unfolding e_def exponent_def
    using assms by (intro exponent_upto_below) (simp_all add: a_def)
  have z0: "0 \<le> z" by (simp add: z_def a_def)
  then have m0: "0 \<le> m" unfolding m_def using round_even_nonneg by simp
  then have y0: "0 \<le> y" by (simp add: y_def)
  have "\<bar>m - z\<bar> \<le> 1 / 2" unfolding m_def by (rule round_even_near)
  then have "\<bar>m - z\<bar> * 2 powi (e - 52) \<le> 1 / 2 * 2 powi (e - 52)"
    by (intro mult_right_mono) simp_all
  moreover have "z * 2 powi (e - 52) = a"
    by (simp add: z_def flip: power_int_add)
  moreover have "\<bar>m - z\<bar> * 2 powi (e - 52) = \<bar>m * 2 powi (e - 52) - z * 2 powi (e - 52)\<bar>"
    by (simp add: abs_mult flip: left_diff_distrib)
  moreover have "1 / 2 * (2::real) powi (e - 52) = 2 powi (e - 53)"
    by (simp add: power_int_diff)
  ultimately have err: "\<bar>y - a\<bar> \<le> 2 powi (e - 53)" by (simp add: y_def)
  have "(2::real) powi (e - 53) \<le> 2 powi (k - 54)"
    using e1 by (intro power_int_increasing) simp_all
  with err have err': "\<bar>y - a\<bar> \<le> 2 powi (k - 54)" by linarith
  have "(2::real) powi (k - 54) < 2 powi k"
    by (intro power_int_strict_increasing) simp_all
  moreover have "(2::real) powi k \<le> 2 powi 1023"
    using assms by (intro power_int_increasing) simp_all
  moreover have "(2::real) powi 1024 = 2 * 2 powi 1023"
    by (simp add: power_int_add_1' flip: power_int_add)
  ultimately have fin: "\<not> y \<ge> 2 powi 1024" using err' assms(1) unfolding a_def by linarith
  have r: "round64 x = Num (if x < 0 then - y else y)"
    using fin unfolding round64_def Let_def y_def m_def z_def e_def a_def by simp
  show ?thesis
  proof (cases "x = 0")
    case True
    then show ?thesis by (simp add: round64_zero)
  next
    case False
    with r err' y0 show ?thesis by (cases "x < 0") (auto simp: a_def)
  qed
qed

lemma round64_eval:
  assumes "2 powi e \<le> \<bar>x\<bar>" "\<bar>x\<bar> < 2 powi (e + 1)" "- 1022 \<le> e" "e \<le> 1022"
    and "\<bar>real_of_int m - \<bar>x\<bar> * 2 powi (52 - e)\<bar> < 1 / 2"
  shows "round64 x = Num ((if x < 0 then - 1 else 1) * (real_of_int m * 2 powi (e - 52)))"
proof -
  have e: "exponent \<bar>x\<bar> = e" unfolding exponent_def
    using assms by (intro exponent_upto_eq) simp_all
  have m: "round_even (\<bar>x\<bar> * 2 powi (52 - e)) = m"
    using assms(5) by (rule round_even_unique)
  from round64_bounded [of x "e + 1"] assms
  obtain y where y: "round64 x = Num y" by auto
  then have "\<not> real_of_int m * 2 powi (e - 52) \<ge> 2 powi 1024"
    unfolding round64_def Let_def e m by (auto split: if_splits)
  then show ?thesis
    unfolding round64_def Let_def e m by simp
qed

lemma round64_nat:
  assumes "n \<le> 2 ^ 53"
  shows "round64 (real n) = Num (real n)"
proof (cases "n = 0")
  case True
  then show ?thesis by (simp add: round64_zero)
next
  case False
  then have "1 \<le> n" by simp
  with ex_power_ivl1 [of 2 n] obtain e where e: "2 ^ e \<le> n" "n < 2 ^ (e + 1)" by auto
  from e(1) assms have "(2::nat) ^ e \<le> 2 ^ 53" by linarith
  then have e53: "e \<le> 53" by (rule power_le_imp_le_exp [rotated]) simp
  have lo: "2 powi (int e) \<le> \<bar>real n\<bar>"
    using e(1) by simp
  have hi: "\<bar>real n\<bar> < 2 powi (int e + 1)"
  proof -
    have "real n < real (2 ^ (e + 1))" using e(2) by (simp only: of_nat_less_iff)
    then have "real n < 2 ^ (e + 1)" by simp
    moreover have "(2::real) powi (int e + 1) = 2 ^ (e + 1)"
      by (simp add: power_int_add)
    ultimately show ?thesis by simp
  qed
  show ?thesis
  proof (cases "e \<le> 52")
    case True
    have pw: "(2::real) powi (52 - int e) = 2 ^ (52 - e)"
      using True by (simp add: power_int_def nat_diff_distrib')
    have one: "(2::real) powi (52 - int e) * 2 powi (int e - 52) = 1"
      by (simp flip: power_int_add)
    have cast: "real_of_int (int (n * 2 ^ (52 - e))) = real n * 2 powi (52 - int e)"
      unfolding pw by simp
    have p: "\<bar>real_of_int (int (n * 2 ^ (52 - e))) - \<bar>real n\<bar> * 2 powi (52 - int e)\<bar> < 1 / 2"
      unfolding cast by simp
    have "round64 (real n) =
            Num ((if real n < 0 then - 1 else 1) *
                 (real_of_int (int (n * 2 ^ (52 - e))) * 2 powi (int e - 52)))"
      using lo hi e53 p by (intro round64_eval) simp_all
    moreover have "real_of_int (int (n * 2 ^ (52 - e))) * 2 powi (int e - 52) = real n"
      unfolding cast mult.assoc one by simp
    ultimately show ?thesis by simp
  next
    case False
    with e53 have e': "e = 53" by simp
    with e(1) assms have n: "n = 2 ^ 53" by simp
    have "round64 (real n) =
            Num ((if real n < 0 then - 1 else 1) * (real_of_int (2 ^ 52) * 2 powi (int e - 52)))"
      using lo hi by (intro round64_eval) (simp_all add: e' n)
    then show ?thesis by (simp add: e' n)
  qed
qed

lemma round64_is:
  assumes "2 powi e \<le> \<bar>x\<bar>" "\<bar>x\<bar> < 2 powi (e + 1)" "- 1022 \<le> e" "e \<le> 1022"
    and "\<bar>real_of_int m - \<bar>x\<bar> * 2 powi (52 - e)\<bar> < 1 / 2"
    and "c = (if x < 0 then - 1 else 1) * (real_of_int m * 2 powi (e - 52))"
  shows "round64 x = Num c"
  unfolding assms(6) using assms(1-5) by (rule round64_eval)

lemma round_even_tie:
  assumes "y = real_of_int f + 1 / 2"
  shows "round_even y = (if even f then f else f + 1)"
proof -
  have "\<lfloor>y\<rfloor> = f" unfolding assms by linarith
  then show ?thesis by (simp add: round_even_def assms)
qed

lemma round64_is_tie:
  assumes "2 powi e \<le> \<bar>x\<bar>" "\<bar>x\<bar> < 2 powi (e + 1)" "- 1022 \<le> e" "e \<le> 1022"
    and "\<bar>x\<bar> * 2 powi (52 - e) = real_of_int f + 1 / 2"
    and "c = (if x < 0 then - 1 else 1) *
               (real_of_int (if even f then f else f + 1) * 2 powi (e - 52))"
  shows "round64 x = Num c"
proof -
  have e: "exponent \<bar>x\<bar> = e" unfolding exponent_def
    using assms by (intro exponent_upto_eq) simp_all
  have m: "round_even (\<bar>x\<bar> * 2 powi (52 - e)) = (if even f then f else f + 1)"
    using assms(5) by (rule round_even_tie)
  from round64_bounded [of x "e + 1"] assms
  obtain y where y: "round64 x = Num y" by auto
  then have "\<not> real_of_int (if even f then f else f + 1) * 2 powi (e - 52) \<ge> 2 powi 1024"
    unfolding round64_def Let_def e m by (auto split: if_splits)
  then show ?thesis
    unfolding round64_def Let_def e m assms(6) by simp
qed

lemma round64_numeral:
  "numeral k \<le> (2::nat) ^ 53 \<Longrightarrow> round64 (numeral k) = Num (numeral k)"
  using round64_nat [of "numeral k"] by simp

lemma round64_one: "round64 1 = Num 1"
  using round64_nat [of 1] by simp

lemma round64_finite: "round64 x \<noteq> NaN"
  by (simp add: round64_def Let_def)

lemma truthy_round64: "js_truthy (round64 x) = (round64 x \<noteq> Num 0)"
  by (cases "round64 x") (simp_all add: round64_finite)

lemma number_or_parsed:
  "number_or (parsed v) (Num 0) = (case v of None \<Rightarrow> Num 0 | Some x \<Rightarrow> round64 x)"
  by (auto simp: number_or_def parsed_def truthy_round64 split: option.splits)

subsection \<open>The roundings of the examples\<close>

lemma r64_0_1: "round64 (1 / 10) = Num (3602879701896397 / 36028797018963968)"
  by (rule round64_is [where e = "- 4" and m = 7205759403792794]) simp_all

lemma r64_4_1: "round64 (41 / 10) = Num (2308094809027379 / 562949953421312)"
  by (rule round64_is [where e = "2" and m = 4616189618054758]) simp_all

lemma r64_1_8: "round64 (9 / 5) = Num (8106479329266893 / 4503599627370496)"
  by (rule round64_is [where e = "0" and m = 8106479329266893]) simp_all

lemma r64_a_s1: "round64 (3602879701896397 / 36028797018963968) = Num (3602879701896397 / 36028797018963968)"
  by (rule round64_is [where e = "- 4" and m = 7205759403792794]) simp_all

lemma r64_a_s2: "round64 (151320947479648653 / 36028797018963968) = Num (1182194902184755 / 281474976710656)"
  by (rule round64_is [where e = "2" and m = 4728779608739020]) simp_all

lemma r64_a_s3: "round64 (27021597764222973 / 4503599627370496) = Num (6755399441055743 / 1125899906842624)"
  by (rule round64_is [where e = "2" and m = 6755399441055743]) simp_all

lemma r64_a_avg: "round64 (6755399441055743 / 3377699720527872) = Num (9007199254740991 / 4503599627370496)"
  by (rule round64_is [where e = "0" and m = 9007199254740991]) simp_all

lemma r64_1_45: "round64 (29 / 20) = Num (6530219459687219 / 4503599627370496)"
  by (rule round64_is [where e = "0" and m = 6530219459687219]) simp_all

lemma r64_0_05: "round64 (1 / 20) = Num (3602879701896397 / 72057594037927936)"
  by (rule round64_is [where e = "- 5" and m = 7205759403792794]) simp_all

lemma r64_0_2: "round64 (1 / 5) = Num (3602879701896397 / 18014398509481984)"
  by (rule round64_is [where e = "- 3" and m = 7205759403792794]) simp_all

lemma r64_b_s1: "round64 (3602879701896397 / 72057594037927936) = Num (3602879701896397 / 72057594037927936)"
  by (rule round64_is [where e = "- 5" and m = 7205759403792794]) simp_all

lemma r64_b_s2: "round64 (18014398509481985 / 72057594037927936) = Num (1 / 4)"
  by (rule round64_is [where e = "- 2" and m = 4503599627370496]) simp_all

lemma r64_b_s3: "round64 (12610078956637389 / 36028797018963968) = Num (3152519739159347 / 9007199254740992)"
  by (rule round64_is_tie [where e = "- 2" and f = 6305039478318694]) simp_all

lemma r64_42_5: "round64 (85 / 2) = Num (85 / 2)"
  by (rule round64_is [where e = "5" and m = 5981343255101440]) simp_all

lemma r64_lc_0: "round64 (23 / 80) = Num (2589569785738035 / 9007199254740992)"
  by (rule round64_is [where e = "- 2" and m = 5179139571476070]) simp_all

lemma r64_lc_1: "round64 (64739244643450875 / 2251799813685248) = Num (8092405580431359 / 281474976710656)"
  by (rule round64_is [where e = "4" and m = 8092405580431359]) simp_all

lemma r64_lc_2: "round64 (287 / 10) = Num (8078331831595827 / 281474976710656)"
  by (rule round64_is [where e = "4" and m = 8078331831595827]) simp_all

lemma r64_lc_3: "round64 (57 / 80) = Num (6417629469002957 / 9007199254740992)"
  by (rule round64_is [where e = "- 1" and m = 6417629469002957]) simp_all

lemma r64_lc_4: "round64 (160440736725073925 / 2251799813685248) = Num (285 / 4)"
  by (rule round64_is [where e = "6" and m = 5013773022658560]) simp_all

lemma r64_lc_5: "round64 (713 / 10) = Num (5017291459867443 / 70368744177664)"
  by (rule round64_is [where e = "6" and m = 5017291459867443]) simp_all

lemma r64_lc_6: "round64 (461 / 1600) = Num (5190398570544497 / 18014398509481984)"
  by (rule round64_is [where e = "- 2" and m = 5190398570544497]) simp_all

lemma r64_lc_7: "round64 (129759964263612425 / 4503599627370496) = Num (8109997766475777 / 281474976710656)"
  by (rule round64_is [where e = "4" and m = 8109997766475777]) simp_all

lemma r64_lc_8: "round64 (144 / 5) = Num (8106479329266893 / 281474976710656)"
  by (rule round64_is [where e = "4" and m = 8106479329266893]) simp_all

lemma r64_lc_9: "round64 (679 / 1600) = Num (7644860367461417 / 18014398509481984)"
  by (rule round64_is [where e = "- 2" and m = 7644860367461417]) simp_all

lemma r64_lc_10: "round64 (191121509186535425 / 4503599627370496) = Num (679 / 16)"
  by (rule round64_is [where e = "5" and m = 5972547162079232]) simp_all

lemma r64_lc_11: "round64 (212 / 5) = Num (5967269506265907 / 140737488355328)"
  by (rule round64_is [where e = "5" and m = 5967269506265907]) simp_all

lemma r64_lc_12: "round64 (3828059683264921 / 281474976710656) = Num (3828059683264921 / 281474976710656)"
  by (rule round64_is [where e = "3" and m = 7656119366529842]) simp_all

lemma r64_lc_13: "round64 (3856207180935987 / 281474976710656) = Num (3856207180935987 / 281474976710656)"
  by (rule round64_is [where e = "3" and m = 7712414361871974]) simp_all

lemma r64_lc_14: "round64 (14073748835533 / 140737488355328) = Num (14073748835533 / 140737488355328)"
  by (rule round64_is [where e = "- 4" and m = 7205759403792896]) simp_all

lemma r64_lc_15: "round64 (1 / 4) = Num (1 / 4)"
  by (rule round64_is [where e = "- 2" and m = 4503599627370496]) simp_all

lemma r64_lc_16: "round64 (1 / 2) = Num (1 / 2)"
  by (rule round64_is [where e = "- 1" and m = 4503599627370496]) simp_all

section \<open>Properties of the result classifier\<close>

subsection \<open>Reading a result\<close>

lemma rain_sum_eq: "rain_sum ds = binary64_sum (map rain_or_zero ds)"
  by (simp add: rain_sum_def binary64_sum_def foldl_map number_or_parsed rain_or_zero_def)

lemma rainfallData_of_eq:
  "rainfallData_of r = (case rain_series r of None \<Rightarrow> [] | Some ds \<Rightarrow> ds)"
  by (simp add: rainfallData_of_def rain_series_def obj_or_def split: option.splits)

lemma total_rainfall_eq: "total_rainfall (rainfallStats_of r) = stated_total r"
  by (simp add: rainfallStats_of_def stated_total_def obj_or_def split: option.splits)

lemma status_obj_or:
  "status (obj_or (drought r) \<lparr>status = None\<rparr>) =
     (case drought r of None \<Rightarrow> None | Some d \<Rightarrow> status d)"
  by (simp add: obj_or_def split: option.splits)

lemma num_or_zero: "num_or v 0 = (case v of None \<Rightarrow> 0 | Some x \<Rightarrow> x)"
  by (simp add: num_or_def split: option.splits)

lemma ndviValue_summarise: "ndviValue (summarise r) = ndvi_or_zero r"
  by (simp add: summarise_def Let_def num_or_zero ndvi_or_zero_def)

lemma ndviStatus_summarise: "ndviStatus (summarise r) = getNDVIStatus (ndvi_or_zero r)"
  by (simp add: summarise_def Let_def num_or_zero ndvi_or_zero_def)

lemma droughtStatus_summarise:
  "droughtStatus (summarise r) =
     getDroughtStatus (Some (rainfallData_of r)) (Some (obj_or (drought r) \<lparr>status = None\<rparr>))"
  by (simp add: summarise_def Let_def)

lemma totalRain_summarise:
  "totalRain (summarise r) = rainTotal (rainfallStats_of r) (rainfallData_of r)"
  by (simp add: summarise_def Let_def)

lemma landcoverShown_summarise:
  "landcoverShown (summarise r) = landcoverStats (case landcover r of None \<Rightarrow> [] | Some lc \<Rightarrow> lc)"
  by (simp add: summarise_def Let_def obj_or_def)

subsection \<open>One decimal\<close>

lemma toFixed1_near:
  assumes "\<bar>x\<bar> < 10 ^ 21"
  shows "\<exists>k. toFixed1 (Num x) = Decimal (x < 0) k \<and> \<bar>real k / 10 - \<bar>x\<bar>\<bar> \<le> 1 / 20"
proof -
  define k where "k = nat \<lfloor>\<bar>x\<bar> * 10 + 1 / 2\<rfloor>"
  have "0 \<le> \<lfloor>\<bar>x\<bar> * 10 + 1 / 2\<rfloor>" by simp
  then have "real k = real_of_int \<lfloor>\<bar>x\<bar> * 10 + 1 / 2\<rfloor>" by (simp add: k_def)
  moreover have "\<bar>real_of_int \<lfloor>\<bar>x\<bar> * 10 + 1 / 2\<rfloor> - \<bar>x\<bar> * 10\<bar> \<le> 1 / 2" by linarith
  ultimately have "\<bar>real k - \<bar>x\<bar> * 10\<bar> \<le> 1 / 2" by simp
  then have "\<bar>real k / 10 - \<bar>x\<bar>\<bar> \<le> 1 / 20" by argo
  moreover from assms have "toFixed1 (Num x) = Decimal (x < 0) k" by (simp add: k_def)
  ultimately show ?thesis by blast
qed

subsection \<open>Rainfall total\<close>

text \<open>
  Claim C1, as the specification states it, fails twice. With a total of 0 in the
  statistics and the series 1, 2 the card shows the sum of the series, 3.0, where the
  claim has the present value 0; with no statistics and a series that exists but is
  empty the card shows N/A, where the claim has the sum 0.
\<close>

theorem rain_total_counterexample:
  "totalRain (summarise
      \<lparr>ndvi = None,
       rainfall = Some \<lparr>features = Some [\<lparr>date = None, rain = Some 1\<rparr>,
                                          \<lparr>date = None, rain = Some 2\<rparr>],
                        statistics = Some \<lparr>total_rainfall = Some 0\<rparr>\<rparr>,
       drought = None, landcover = None, yield_prediction = None\<rparr>) =
     Fixed (Decimal False 30) \<and>
   claimed_rain_total
      \<lparr>ndvi = None,
       rainfall = Some \<lparr>features = Some [\<lparr>date = None, rain = Some 1\<rparr>,
                                          \<lparr>date = None, rain = Some 2\<rparr>],
                        statistics = Some \<lparr>total_rainfall = Some 0\<rparr>\<rparr>,
       drought = None, landcover = None, yield_prediction = None\<rparr> =
     Fixed (Decimal False 0) \<and>
   Fixed (Decimal False 30) \<noteq> Fixed (Decimal False 0) \<and>
   totalRain (summarise
      \<lparr>ndvi = None,
       rainfall = Some \<lparr>features = Some [], statistics = None\<rparr>,
       drought = None, landcover = None, yield_prediction = None\<rparr>) = NotAvailable \<and>
   claimed_rain_total
      \<lparr>ndvi = None,
       rainfall = Some \<lparr>features = Some [], statistics = None\<rparr>,
       drought = None, landcover = None, yield_prediction = None\<rparr> =
     Fixed (Decimal False 0) \<and>
   NotAvailable \<noteq> Fixed (Decimal False 0)"
  by (simp add: totalRain_summarise rainTotal_def rainfallStats_of_def rainfallData_of_def
      obj_or_def rain_sum_eq binary64_sum_def rain_or_zero_def parsed_def
      claimed_rain_total_def stated_total_def rain_series_def
      round64_zero round64_one round64_numeral)

text \<open>
  Claim C1, amended. The card shows, as \<open>toFixed(1)\<close> prints it: the total of the
  statistics if it is present and its Number is not 0; otherwise the sum of the rain
  values of the series, a missing value counting as 0 and the additions being those of
  binary64 from the left, if the series is present and not empty; otherwise N/A. The
  first case wins over the second whatever the series sums to. What \<open>toFixed(1)\<close> prints
  of a Number below \<open>10^21\<close> in magnitude is its sign and a number of tenths that is at
  most a twentieth away from its magnitude.
\<close>

theorem rain_total:
  "totalRain (summarise r) =
     (let fromSeries =
            (case rain_series r of
               None \<Rightarrow> NotAvailable
             | Some ds \<Rightarrow>
                 if ds = [] then NotAvailable
                 else Fixed (toFixed1 (binary64_sum (map rain_or_zero ds))))
      in case stated_total r of
           None \<Rightarrow> fromSeries
         | Some t \<Rightarrow> if round64 t = Num 0 then fromSeries else Fixed (toFixed1 (round64 t))) \<and>
   (\<forall>x. \<bar>x\<bar> < 10 ^ 21 \<longrightarrow>
      (\<exists>k. toFixed1 (Num x) = Decimal (x < 0) k \<and> \<bar>real k / 10 - \<bar>x\<bar>\<bar> \<le> 1 / 20))"
proof -
  have "totalRain (summarise r) =
     (let fromSeries =
            (case rain_series r of
               None \<Rightarrow> NotAvailable
             | Some ds \<Rightarrow>
                 if ds = [] then NotAvailable
                 else Fixed (toFixed1 (binary64_sum (map rain_or_zero ds))))
      in case stated_total r of
           None \<Rightarrow> fromSeries
         | Some t \<Rightarrow> if round64 t = Num 0 then fromSeries else Fixed (toFixed1 (round64 t)))"
    by (simp add: totalRain_summarise rainTotal_def total_rainfall_eq rainfallData_of_eq
        rain_sum_eq parsed_def truthy_round64 Let_def split: option.splits)
  then show ?thesis using toFixed1_near by blast
qed

theorem rain_total_witness:
  "totalRain (summarise example_result) = Fixed (Decimal False 425) \<and>
   totalRain (summarise (absent_result\<lparr>rainfall :=
      Some \<lparr>features = None, statistics = Some \<lparr>total_rainfall = Some 1.45\<rparr>\<rparr>\<rparr>)) =
     Fixed (Decimal False 14) \<and>
   totalRain (summarise (absent_result\<lparr>rainfall :=
      Some \<lparr>features = Some [\<lparr>date = None, rain = Some 0.05\<rparr>, \<lparr>date = None, rain = Some 0.2\<rparr>,
                              \<lparr>date = None, rain = Some 0.1\<rparr>],
            statistics = None\<rparr>\<rparr>)) = Fixed (Decimal False 3) \<and>
   totalRain (summarise (absent_result\<lparr>rainfall :=
      Some \<lparr>features = Some [\<lparr>date = None, rain = Some 1\<rparr>, \<lparr>date = None, rain = None\<rparr>,
                              \<lparr>date = None, rain = Some 2\<rparr>],
            statistics = None\<rparr>\<rparr>)) = Fixed (Decimal False 30) \<and>
   totalRain (summarise absent_result) = NotAvailable \<and>
   toFixed1 (Num (- (1 / 4))) = Decimal True 3"
proof -
  have a: "totalRain (summarise example_result) = Fixed (Decimal False 425)"
    using rain_total [of example_result]
    by (simp add: stated_total_def rain_series_def example_result_def r64_42_5)
  have b: "totalRain (summarise (absent_result\<lparr>rainfall :=
      Some \<lparr>features = None, statistics = Some \<lparr>total_rainfall = Some 1.45\<rparr>\<rparr>\<rparr>)) =
     Fixed (Decimal False 14)"
    using rain_total [of "absent_result\<lparr>rainfall :=
      Some \<lparr>features = None, statistics = Some \<lparr>total_rainfall = Some 1.45\<rparr>\<rparr>\<rparr>"]
    by (simp add: stated_total_def rain_series_def absent_result_def r64_1_45)
  have c: "totalRain (summarise (absent_result\<lparr>rainfall :=
      Some \<lparr>features = Some [\<lparr>date = None, rain = Some 0.05\<rparr>, \<lparr>date = None, rain = Some 0.2\<rparr>,
                              \<lparr>date = None, rain = Some 0.1\<rparr>],
            statistics = None\<rparr>\<rparr>)) = Fixed (Decimal False 3)"
    using rain_total [of "absent_result\<lparr>rainfall :=
      Some \<lparr>features = Some [\<lparr>date = None, rain = Some 0.05\<rparr>, \<lparr>date = None, rain = Some 0.2\<rparr>,
                              \<lparr>date = None, rain = Some 0.1\<rparr>],
            statistics = None\<rparr>\<rparr>"]
    by (simp add: stated_total_def rain_series_def absent_result_def binary64_sum_def
        rain_or_zero_def r64_0_05 r64_0_2 r64_0_1 r64_b_s1 r64_b_s2 r64_b_s3)
  have d: "totalRain (summarise (absent_result\<lparr>rainfall :=
      Some \<lparr>features = Some [\<lparr>date = None, rain = Some 1\<rparr>, \<lparr>date = None, rain = None\<rparr>,
                              \<lparr>date = None, rain = Some 2\<rparr>],
            statistics = None\<rparr>\<rparr>)) = Fixed (Decimal False 30)"
    using rain_total [of "absent_result\<lparr>rainfall :=
      Some \<lparr>features = Some [\<lparr>date = None, rain = Some 1\<rparr>, \<lparr>date = None, rain = None\<rparr>,
                              \<lparr>date = None, rain = Some 2\<rparr>],
            statistics = None\<rparr>\<rparr>"]
    by (simp add: stated_total_def rain_series_def absent_result_def binary64_sum_def
        rain_or_zero_def round64_zero round64_one round64_numeral)
  have e: "totalRain (summarise absent_result) = NotAvailable"
    using rain_total [of absent_result]
    by (simp add: stated_total_def rain_series_def absent_result_def)
  have f: "toFixed1 (Num (- (1 / 4))) = Decimal True 3"
    using rain_total [of absent_result] by simp
  from a b c d e f show ?thesis by simp
qed

subsection \<open>Drought status\<close>

text \<open>
  Claim C2. If the drought status is a non-empty string, then Normal gives NoDrought,
  Mild Drought gives MildDrought, Moderate Drought gives Moderate, and any other string
  gives SevereOrWorse with that string as its label. Otherwise, if the rainfall series is
  not empty, the average of its rain values gives NoDrought from 5 on, MildDrought from
  2 on and SevereOrWorse below; the average is the sum of the rain values, a missing
  value counting as 0, divided by the number of entries, in the arithmetic of binary64
  with the sum taken from the left. Otherwise, the series being empty or absent, the
  status is Unknown.
\<close>

theorem drought_classification:
  "droughtStatus (summarise r) =
     (case drought_status r of
        Some s \<Rightarrow>
          if s = ''Normal'' then NoDrought
          else if s = ''Mild Drought'' then MildDrought
          else if s = ''Moderate Drought'' then ModerateDrought
          else SevereOrWorse s
      | None \<Rightarrow>
          (case rain_series r of
             None \<Rightarrow> UnknownDrought
           | Some ds \<Rightarrow>
               if ds = [] then UnknownDrought
               else if js_ge (js_div (binary64_sum (map rain_or_zero ds)) (Num (real (length ds))))
                             (Num 5) then NoDrought
               else if js_ge (js_div (binary64_sum (map rain_or_zero ds)) (Num (real (length ds))))
                             (Num 2) then MildDrought
               else SevereOrWorse ''Severe Drought''))"
proof (cases "drought_status r")
  case None
  then have st: "(case drought r of None \<Rightarrow> None | Some d \<Rightarrow> status d) = None \<or>
                 (case drought r of None \<Rightarrow> None | Some d \<Rightarrow> status d) = Some []"
    by (auto simp: drought_status_def split: option.splits if_splits)
  then have "droughtStatus (summarise r) = droughtFromRainfall (Some (rainfallData_of r))"
    by (auto simp: droughtStatus_summarise getDroughtStatus_def status_obj_or)
  with None show ?thesis
    by (simp add: droughtFromRainfall_def rainfallData_of_eq rain_sum_eq Let_def
        NoDrought_def MildDrought_def SevereOrWorse_def UnknownDrought_def
        split: option.splits)
next
  case (Some s)
  then have "(case drought r of None \<Rightarrow> None | Some d \<Rightarrow> status d) = Some s" and "s \<noteq> []"
    by (auto simp: drought_status_def split: option.splits if_splits)
  then have "droughtStatus (summarise r) =
     (if s = ''Normal'' then NoDrought
      else if s = ''Mild Drought'' then MildDrought
      else if s = ''Moderate Drought'' then ModerateDrought
      else SevereOrWorse s)"
    by (simp add: droughtStatus_summarise getDroughtStatus_def status_obj_or
        NoDrought_def MildDrought_def ModerateDrought_def SevereOrWorse_def)
  with Some show ?thesis by simp
qed

theorem drought_classification_witness:
  "statusText (droughtStatus (summarise (absent_result\<lparr>drought := Some \<lparr>status = Some ''Normal''\<rparr>\<rparr>))) =
     ''No Drought'' \<and>
   droughtStatus (summarise example_result) = SevereOrWorse ''Severe Drought'' \<and>
   droughtStatus (summarise (absent_result\<lparr>rainfall :=
      Some \<lparr>features = Some [\<lparr>date = None, rain = Some 4\<rparr>, \<lparr>date = None, rain = None\<rparr>,
                              \<lparr>date = None, rain = Some 5\<rparr>],
            statistics = None\<rparr>\<rparr>)) = MildDrought \<and>
   droughtStatus (summarise (absent_result\<lparr>rainfall :=
      Some \<lparr>features = Some [\<lparr>date = None, rain = Some 0.1\<rparr>, \<lparr>date = None, rain = Some 4.1\<rparr>,
                              \<lparr>date = None, rain = Some 1.8\<rparr>],
            statistics = None\<rparr>\<rparr>)) = SevereOrWorse ''Severe Drought'' \<and>
   droughtStatus (summarise absent_result) = UnknownDrought"
proof -
  have a: "statusText (droughtStatus (summarise
             (absent_result\<lparr>drought := Some \<lparr>status = Some ''Normal''\<rparr>\<rparr>))) = ''No Drought''"
    using drought_classification [of "absent_result\<lparr>drought := Some \<lparr>status = Some ''Normal''\<rparr>\<rparr>"]
    by (simp add: drought_status_def absent_result_def NoDrought_def)
  have b: "droughtStatus (summarise example_result) = SevereOrWorse ''Severe Drought''"
    using drought_classification [of example_result]
    by (simp add: drought_status_def example_result_def)
  have c: "droughtStatus (summarise (absent_result\<lparr>rainfall :=
      Some \<lparr>features = Some [\<lparr>date = None, rain = Some 4\<rparr>, \<lparr>date = None, rain = None\<rparr>,
                              \<lparr>date = None, rain = Some 5\<rparr>],
            statistics = None\<rparr>\<rparr>)) = MildDrought"
    using drought_classification [of "absent_result\<lparr>rainfall :=
      Some \<lparr>features = Some [\<lparr>date = None, rain = Some 4\<rparr>, \<lparr>date = None, rain = None\<rparr>,
                              \<lparr>date = None, rain = Some 5\<rparr>],
            statistics = None\<rparr>\<rparr>"]
    by (simp add: drought_status_def rain_series_def absent_result_def binary64_sum_def
        rain_or_zero_def round64_zero round64_numeral)
  have d: "droughtStatus (summarise (absent_result\<lparr>rainfall :=
      Some \<lparr>features = Some [\<lparr>date = None, rain = Some 0.1\<rparr>, \<lparr>date = None, rain = Some 4.1\<rparr>,
                              \<lparr>date = None, rain = Some 1.8\<rparr>],
            statistics = None\<rparr>\<rparr>)) = SevereOrWorse ''Severe Drought''"
    using drought_classification [of "absent_result\<lparr>rainfall :=
      Some \<lparr>features = Some [\<lparr>date = None, rain = Some 0.1\<rparr>, \<lparr>date = None, rain = Some 4.1\<rparr>,
                              \<lparr>date = None, rain = Some 1.8\<rparr>],
            statistics = None\<rparr>\<rparr>"]
    by (simp add: drought_status_def rain_series_def absent_result_def binary64_sum_def
        rain_or_zero_def r64_0_1 r64_4_1 r64_1_8 r64_a_s1 r64_a_s2 r64_a_s3 r64_a_avg)
  have e: "droughtStatus (summarise absent_result) = UnknownDrought"
    using drought_classification [of absent_result]
    by (simp add: drought_status_def rain_series_def absent_result_def)
  from a b c d e show ?thesis by simp
qed

subsection \<open>Vegetation status\<close>



subsection \<open>Arithmetic of the land cover percentages\<close>

lemma foldl_add_nat:
  "a + sum_list ns \<le> 2 ^ 53 \<Longrightarrow>
   foldl js_add (Num (real a)) (map (\<lambda>n. round64 (real n)) ns) = Num (real (a + sum_list ns))"
proof (induction ns arbitrary: a)
  case Nil
  then show ?case by simp
next
  case (Cons n ns)
  then have n: "n \<le> 2 ^ 53" and an: "a + n \<le> 2 ^ 53" by simp_all
  have "js_add (Num (real a)) (round64 (real n)) = round64 (real (a + n))"
    by (simp add: round64_nat [OF n])
  also have "\<dots> = Num (real (a + n))" using an by (rule round64_nat)
  finally have "js_add (Num (real a)) (round64 (real n)) = Num (real (a + n))" .
  moreover from Cons.prems have "(a + n) + sum_list ns \<le> 2 ^ 53" by simp
  ultimately show ?case using Cons.IH [of "a + n"] by (simp add: add.assoc)
qed

lemma totalPixels_exact:
  assumes "sum_list (map snd lc) \<le> 2 ^ 53"
  shows "totalPixels lc = Num (real (sum_list (map snd lc)))"
proof -
  have m: "map (\<lambda>(c, count). round64 (real count)) lc =
           map (\<lambda>n. round64 (real n)) (map snd lc)"
    by (induction lc) auto
  have "totalPixels lc = foldl js_add (Num (real 0)) (map (\<lambda>n. round64 (real n)) (map snd lc))"
    unfolding totalPixels_def m by simp
  also have "\<dots> = Num (real (0 + sum_list (map snd lc)))"
    using assms by (intro foldl_add_nat) simp
  finally show ?thesis by simp
qed

lemma count_le_total: "(c, n) \<in> set lc \<Longrightarrow> n \<le> sum_list (map snd lc)" for n :: nat
proof (induction lc)
  case Nil
  then show ?case by simp
next
  case (Cons e lc)
  then show ?case by (cases e) auto
qed

lemma pow2_consts:
  "(2::real) powi (- 45) = 1 / 35184372088832"
  "(2::real) powi (- 47) = 1 / 140737488355328"
  "(2::real) powi (- 53) = 1 / 9007199254740992"
  "(2::real) powi 7 = 128"
  "(2::real) powi 1 = 2"
  by simp_all

lemma percent_of_count:
  assumes "n \<le> t" "0 < t" "t \<le> 2 ^ 53"
  shows "\<exists>p k. js_mul (js_div (Num (real n)) (Num (real t))) (Num 100) = Num p \<and>
               \<bar>p - real n / real t * 100\<bar> \<le> 2 powi (- 45) \<and>
               toFixed1 (Num p) = Decimal False k \<and>
               \<bar>real k / 10 - p\<bar> \<le> 1 / 20 \<and> k \<le> 1000"
proof -
  define r where "r = real n / real t"
  have r0: "0 \<le> r" "r \<le> 1" using assms by (simp_all add: r_def)
  then have "\<bar>r\<bar> < 2 powi 1" by simp
  from round64_bounded [OF this]
  obtain q where q: "round64 r = Num q"
    and qe: "\<bar>q - r\<bar> \<le> 2 powi (- 53)" and qp: "0 \<le> q"
    using r0 by auto
  have q1: "q \<le> 1 + 1 / 9007199254740992" using qe r0 unfolding pow2_consts by argo
  then have "\<bar>q * 100\<bar> < 2 powi 7" using qp unfolding pow2_consts by argo
  from round64_bounded [OF this]
  obtain p where p: "round64 (q * 100) = Num p"
    and pe: "\<bar>p - q * 100\<bar> \<le> 2 powi (- 47)" and pp: "0 \<le> p"
    using qp by auto
  have eq: "js_mul (js_div (Num (real n)) (Num (real t))) (Num 100) = Num p"
    using assms q p by (simp add: r_def)
  have err: "\<bar>p - r * 100\<bar> \<le> 2 powi (- 45)"
    using pe qe unfolding pow2_consts by argo
  have pb: "p \<le> 100 + 1 / 1000" using pe q1 unfolding pow2_consts by argo
  then have small: "\<bar>p\<bar> < 10 ^ 21" using pp by simp
  from toFixed1_near [OF small]
  obtain k where k: "toFixed1 (Num p) = Decimal (p < 0) k" and kn: "\<bar>real k / 10 - \<bar>p\<bar>\<bar> \<le> 1 / 20"
    by blast
  from kn pp pb have "real k < 1001" by argo
  then have "k \<le> 1000" by simp
  with eq err k kn pp show ?thesis unfolding r_def by auto
qed

lemma percent_number_in_range:
  assumes "percent_in_range p"
  shows "\<exists>k\<le>1000. shown_value p = real k / 10 \<and> percent_number p = round64 (real k / 10)"
  using assms unfolding percent_in_range_def
proof
  assume "p = PercentNumber (Num 0)"
  then have "shown_value p = real 0 / 10 \<and> percent_number p = round64 (real 0 / 10)"
    by (simp add: round64_zero)
  then show ?thesis by blast
next
  assume "\<exists>k\<le>1000. p = PercentText (Decimal False k)"
  then show ?thesis by auto
qed

lemma round64_tenths:
  assumes "k \<le> 1000"
  shows "\<exists>a. round64 (real k / 10) = Num a \<and> \<bar>a - real k / 10\<bar> \<le> 2 powi (- 47)"
proof -
  from assms have "\<bar>real k / 10\<bar> < 2 powi 7" by simp
  from round64_bounded [OF this] show ?thesis by auto
qed

lemma comparator_sign:
  assumes "percent_in_range pa" "percent_in_range pb"
  shows "js_gt (js_sub (percent_number pb) (percent_number pa)) (Num 0) =
           (shown_value pa < shown_value pb)"
proof -
  from percent_number_in_range [OF assms(1)]
  obtain ka where ka: "ka \<le> 1000" "shown_value pa = real ka / 10"
    "percent_number pa = round64 (real ka / 10)" by blast
  from percent_number_in_range [OF assms(2)]
  obtain kb where kb: "kb \<le> 1000" "shown_value pb = real kb / 10"
    "percent_number pb = round64 (real kb / 10)" by blast
  from round64_tenths [OF ka(1)]
  obtain a where a: "round64 (real ka / 10) = Num a" "\<bar>a - real ka / 10\<bar> \<le> 2 powi (- 47)"
    by blast
  from round64_tenths [OF kb(1)]
  obtain b where b: "round64 (real kb / 10) = Num b" "\<bar>b - real kb / 10\<bar> \<le> 2 powi (- 47)"
    by blast
  have sub: "js_sub (percent_number pb) (percent_number pa) = round64 (b - a)"
    by (simp add: ka kb a b js_sub_def)
  show ?thesis
  proof (cases "ka = kb")
    case True
    with a b have "b - a = 0" by simp
    with sub True ka kb show ?thesis by (simp add: round64_zero)
  next
    case False
    have rk: "0 \<le> real ka / 10" "real ka / 10 \<le> 100" "0 \<le> real kb / 10" "real kb / 10 \<le> 100"
      using ka(1) kb(1) by simp_all
    have range: "\<bar>b - a\<bar> < 2 powi 7" using a(2) b(2) rk unfolding pow2_consts by argo
    from round64_bounded [OF range]
    obtain d where d: "round64 (b - a) = Num d" "\<bar>d - (b - a)\<bar> \<le> 2 powi (- 47)" by auto
    show ?thesis
    proof (cases "ka < kb")
      case True
      then have "real ka / 10 + 1 / 10 \<le> real kb / 10" by simp
      with a(2) b(2) d(2) have "0 < d" unfolding pow2_consts by argo
      with sub d True ka kb show ?thesis by simp
    next
      case F: False
      with False have "kb < ka" by simp
      then have "real kb / 10 + 1 / 10 \<le> real ka / 10" by simp
      with a(2) b(2) d(2) have "d < 0" unfolding pow2_consts by argo
      with sub d F ka kb show ?thesis by simp
    qed
  qed
qed


subsection \<open>The stable sort\<close>

lemma length_insert_by: "length (insert_by cmp x ys) = Suc (length ys)"
  by (induction ys) auto

lemma set_insert_by: "set (insert_by cmp x ys) = insert x (set ys)"
  by (induction ys) auto

lemma sorted_insert_by:
  fixes f :: "'a \<Rightarrow> real"
  assumes "\<forall>y\<in>set ys. js_gt (cmp x y) (Num 0) = (f x < f y)"
    and "sorted_wrt (\<lambda>a b. f a \<ge> f b) ys"
  shows "sorted_wrt (\<lambda>a b. f a \<ge> f b) (insert_by cmp x ys)"
  using assms by (induction ys) (auto simp: set_insert_by)

lemma filter_insert_by:
  fixes f :: "'a \<Rightarrow> real"
  assumes "\<forall>y\<in>set ys. js_gt (cmp x y) (Num 0) = (f x < f y)"
  shows "filter (\<lambda>e. f e = v) (insert_by cmp x ys) =
           (if f x = v then x # filter (\<lambda>e. f e = v) ys else filter (\<lambda>e. f e = v) ys)"
  using assms by (induction ys) auto

lemma sort_by_Cons: "sort_by cmp (x # xs) = insert_by cmp x (sort_by cmp xs)"
  by (simp add: sort_by_def)

lemma sort_by_Nil: "sort_by cmp [] = []"
  by (simp add: sort_by_def)

lemma length_sort_by: "length (sort_by cmp xs) = length xs"
  by (induction xs) (simp_all add: sort_by_Nil sort_by_Cons length_insert_by)

lemma set_sort_by: "set (sort_by cmp xs) = set xs"
  by (induction xs) (simp_all add: sort_by_Nil sort_by_Cons set_insert_by)

lemma sorted_sort_by:
  fixes f :: "'a \<Rightarrow> real"
  assumes "\<forall>x\<in>set xs. \<forall>y\<in>set xs. js_gt (cmp x y) (Num 0) = (f x < f y)"
  shows "sorted_wrt (\<lambda>a b. f a \<ge> f b) (sort_by cmp xs)"
  using assms
proof (induction xs)
  case Nil
  then show ?case by (simp add: sort_by_Nil)
next
  case (Cons x xs)
  then have "sorted_wrt (\<lambda>a b. f a \<ge> f b) (sort_by cmp xs)" by simp
  moreover from Cons.prems
  have "\<forall>y\<in>set (sort_by cmp xs). js_gt (cmp x y) (Num 0) = (f x < f y)"
    by (simp add: set_sort_by)
  ultimately show ?case unfolding sort_by_Cons by (intro sorted_insert_by)
qed

lemma stable_sort_by:
  fixes f :: "'a \<Rightarrow> real"
  assumes "\<forall>x\<in>set xs. \<forall>y\<in>set xs. js_gt (cmp x y) (Num 0) = (f x < f y)"
  shows "filter (\<lambda>e. f e = v) (sort_by cmp xs) = filter (\<lambda>e. f e = v) xs"
  using assms
proof (induction xs)
  case Nil
  then show ?case by (simp add: sort_by_Nil)
next
  case (Cons x xs)
  then have ih: "filter (\<lambda>e. f e = v) (sort_by cmp xs) = filter (\<lambda>e. f e = v) xs" by simp
  from Cons.prems
  have "\<forall>y\<in>set (sort_by cmp xs). js_gt (cmp x y) (Num 0) = (f x < f y)"
    by (simp add: set_sort_by)
  from filter_insert_by [of "sort_by cmp xs" cmp x f v, OF this] ih
  show ?case by (simp add: sort_by_Cons)
qed

subsection \<open>Property names\<close>

lemma digit_cases:
  "d < 10 \<Longrightarrow> d = 0 \<or> d = 1 \<or> d = 2 \<or> d = 3 \<or> d = 4 \<or> d = 5 \<or> d = 6 \<or> d = 7 \<or> d = 8 \<or> d = (9::nat)"
  by arith

lemma digit_of_digit_char: "d < 10 \<Longrightarrow> digit_of (digit_char d) = d"
  using digit_cases [of d] by (auto simp: digit_of_def digit_char_def)

lemma is_digit_digit_char: "d < 10 \<Longrightarrow> is_digit (digit_char d)"
  using digit_cases [of d] by (auto simp: is_digit_def digit_char_def)

lemma digit_char_zero: "d < 10 \<Longrightarrow> (digit_char d = CHR ''0'') = (d = 0)"
  using digit_cases [of d] by (auto simp: digit_char_def)

lemma digits_value_snoc: "digits_value (s @ [c]) = 10 * digits_value s + digit_of c"
  by (simp add: digits_value_def)

lemma show_nat_nonempty: "show_nat n \<noteq> []"
  by (subst show_nat.simps) simp

lemma digits_value_show_nat: "digits_value (show_nat n) = n"
proof (induction n rule: show_nat.induct)
  case (1 n)
  show ?case
  proof (cases "n < 10")
    case True
    then show ?thesis
      by (subst show_nat.simps) (simp add: digits_value_def digit_of_digit_char)
  next
    case False
    with 1 have "digits_value (show_nat (n div 10)) = n div 10" by simp
    with False show ?thesis
      by (subst show_nat.simps) (simp add: digits_value_snoc digit_of_digit_char)
  qed
qed

lemma digits_show_nat: "\<forall>c\<in>set (show_nat n). is_digit c"
proof (induction n rule: show_nat.induct)
  case (1 n)
  show ?case
  proof (cases "n < 10")
    case True
    then show ?thesis by (subst show_nat.simps) (simp add: is_digit_digit_char)
  next
    case False
    with 1 have "\<forall>c\<in>set (show_nat (n div 10)). is_digit c" by simp
    with False show ?thesis by (subst show_nat.simps) (simp add: is_digit_digit_char)
  qed
qed

lemma show_nat_leading: "0 < n \<Longrightarrow> hd (show_nat n) \<noteq> CHR ''0''"
proof (induction n rule: show_nat.induct)
  case (1 n)
  show ?case
  proof (cases "n < 10")
    case True
    with "1.prems" show ?thesis by (subst show_nat.simps) (simp add: digit_char_zero)
  next
    case False
    then have "0 < n div 10" by simp
    with 1 False have "hd (show_nat (n div 10)) \<noteq> CHR ''0''" by simp
    with False show ?thesis by (subst show_nat.simps) (simp add: show_nat_nonempty)
  qed
qed

lemma show_nat_zero: "show_nat 0 = ''0''"
  by (simp add: show_nat.simps digit_char_def)

lemma parseInt_show_nat: "parseInt (show_nat c) = round64 (real c)"
proof -
  have t: "takeWhile is_digit (show_nat c) = show_nat c"
    using digits_show_nat by simp
  show ?thesis
    unfolding parseInt_def Let_def t by (simp add: show_nat_nonempty digits_value_show_nat)
qed

lemma known_class_fields:
  "map_of LANDCOVER_CLASSES s = Some (nm, col, cl) \<Longrightarrow> nm \<noteq> [] \<and> col \<noteq> [] \<and> cl \<noteq> []"
  by (auto simp: LANDCOVER_CLASSES_def split: if_splits)

lemma show_nat_known:
  "show_nat 10 = ''10''" "show_nat 20 = ''20''" "show_nat 30 = ''30''" "show_nat 40 = ''40''"
  "show_nat 50 = ''50''" "show_nat 60 = ''60''" "show_nat 70 = ''70''" "show_nat 80 = ''80''"
  "show_nat 90 = ''90''" "show_nat 95 = ''95''" "show_nat 100 = ''100''"
  by (simp_all add: show_nat.simps digit_char_def)

lemma digits_value_known:
  "digits_value ''10'' = 10" "digits_value ''20'' = 20" "digits_value ''30'' = 30"
  "digits_value ''40'' = 40" "digits_value ''50'' = 50" "digits_value ''60'' = 60"
  "digits_value ''70'' = 70" "digits_value ''80'' = 80" "digits_value ''90'' = 90"
  "digits_value ''95'' = 95" "digits_value ''100'' = 100"
  by (simp_all add: digits_value_def digit_of_def)

lemma show_nat_eqD: "show_nat c = s \<Longrightarrow> c = digits_value s"
  using digits_value_show_nat [of c] by simp

lemma known_class_codes:
  "(map_of LANDCOVER_CLASSES (show_nat c) \<noteq> None) =
     (c \<in> {10, 20, 30, 40, 50, 60, 70, 80, 90, 95, 100})"
proof
  assume "map_of LANDCOVER_CLASSES (show_nat c) \<noteq> None"
  then have "show_nat c \<in> fst ` set LANDCOVER_CLASSES"
    by (simp add: map_of_eq_None_iff)
  then have "show_nat c = ''10'' \<or> show_nat c = ''20'' \<or> show_nat c = ''30'' \<or>
             show_nat c = ''40'' \<or> show_nat c = ''50'' \<or> show_nat c = ''60'' \<or>
             show_nat c = ''70'' \<or> show_nat c = ''80'' \<or> show_nat c = ''90'' \<or>
             show_nat c = ''95'' \<or> show_nat c = ''100''"
    unfolding LANDCOVER_CLASSES_def by simp
  then have "c = 10 \<or> c = 20 \<or> c = 30 \<or> c = 40 \<or> c = 50 \<or> c = 60 \<or> c = 70 \<or> c = 80 \<or>
             c = 90 \<or> c = 95 \<or> c = 100"
    using digits_value_known by (auto dest!: show_nat_eqD)
  then show "c \<in> {10, 20, 30, 40, 50, 60, 70, 80, 90, 95, 100}" by simp
next
  assume "c \<in> {10, 20, 30, 40, 50, 60, 70, 80, 90, 95, 100}"
  then have "show_nat c \<in> fst ` set LANDCOVER_CLASSES"
    unfolding LANDCOVER_CLASSES_def using show_nat_known by auto
  then show "map_of LANDCOVER_CLASSES (show_nat c) \<noteq> None"
    by (simp add: map_of_eq_None_iff)
qed

lemma landcover_entry_names:
  "(case map_of LANDCOVER_CLASSES (show_nat c) of
      Some (nm, col, cl) \<Rightarrow>
        name (landcover_entry t (c, n)) = nm \<and> color (landcover_entry t (c, n)) = col
    | None \<Rightarrow>
        name (landcover_entry t (c, n)) = ''Class '' @ show_nat c \<and>
        color (landcover_entry t (c, n)) = ''#64748b'')"
proof (cases "map_of LANDCOVER_CLASSES (show_nat c)")
  case None
  then show ?thesis by (simp add: landcover_entry_def class_field_def)
next
  case (Some e)
  obtain nm col cl where e: "e = (nm, col, cl)" by (cases e)
  with Some known_class_fields [of "show_nat c" nm col cl] show ?thesis
    by (simp add: landcover_entry_def class_field_def)
qed


subsection \<open>Land cover\<close>

lemma entry_percent:
  assumes "sum_list (map snd lc) \<le> 2 ^ 53" "(c, n) \<in> set lc"
  shows "if sum_list (map snd lc) = 0
         then percent (landcover_entry (totalPixels lc) (c, n)) = PercentNumber (Num 0)
         else \<exists>p k. js_mul (js_div (Num (real n)) (totalPixels lc)) (Num 100) = Num p \<and>
                    \<bar>p - real n / real (sum_list (map snd lc)) * 100\<bar> \<le> 2 powi (- 45) \<and>
                    percent (landcover_entry (totalPixels lc) (c, n)) =
                      PercentText (Decimal False k) \<and>
                    \<bar>real k / 10 - p\<bar> \<le> 1 / 20 \<and> k \<le> 1000"
proof -
  define t where "t = sum_list (map snd lc)"
  have tot: "totalPixels lc = Num (real t)"
    unfolding t_def using assms(1) by (rule totalPixels_exact)
  have nt: "n \<le> t" unfolding t_def using assms(2) by (rule count_le_total)
  have t53: "t \<le> 2 ^ 53" using assms(1) by (simp add: t_def)
  show ?thesis
  proof (cases "t = 0")
    case True
    then show ?thesis
      unfolding t_def [symmetric] tot by (simp add: landcover_entry_def)
  next
    case False
    then have pos: "0 < t" by simp
    from nt t53 have n: "round64 (real n) = Num (real n)" by (intro round64_nat) simp
    from percent_of_count [OF nt pos t53]
    obtain p k where pk: "js_mul (js_div (Num (real n)) (Num (real t))) (Num 100) = Num p"
      "\<bar>p - real n / real t * 100\<bar> \<le> 2 powi (- 45)"
      "toFixed1 (Num p) = Decimal False k" "\<bar>real k / 10 - p\<bar> \<le> 1 / 20" "k \<le> 1000"
      by blast
    have "percent (landcover_entry (Num (real t)) (c, n)) = PercentText (Decimal False k)"
      using pos pk(1,3) by (simp add: landcover_entry_def n)
    with pk False show ?thesis
      unfolding t_def [symmetric] tot by auto
  qed
qed

lemma entry_in_range:
  assumes "sum_list (map snd lc) \<le> 2 ^ 53" "(c, n) \<in> set lc"
  shows "percent_in_range (percent (landcover_entry (totalPixels lc) (c, n)))"
  using entry_percent [OF assms] by (auto simp: percent_in_range_def split: if_splits)

text \<open>
  Claim C3. The total is the sum of all counts, added as Numbers from the left, and 0 for
  an empty mapping; the breakdown has the first 5 entries of the sorted mapping and
  nothing for the entries that are dropped. The percent of an entry is the Number 0 when
  the total is not positive, and otherwise what \<open>toFixed(1)\<close> prints of the Number that
  the code computes for count / total * 100. The name of the property of a code is its
  decimal numeral, without leading zeros; an entry whose code is one of the eleven of
  the table has the name and colour of the table, any other one the name Class followed
  by the numeral and the colour #64748b.

  For counts that sum to \<open>2^53\<close> at most, the range in which every integer is a Number:
  the total is the exact sum; the breakdown is the first 5 of the entries of the mapping
  in descending order of the percent they show, entries that show the same percent
  staying in the order of the mapping; and the percent of an entry, when the total is not
  0, is a number of tenths from 0.0 to 100.0 at most a twentieth away from the Number
  computed for count / total * 100, which is less than \<open>2^-45\<close> away from the exact
  quotient times 100.
\<close>

theorem landcover_breakdown:
  "totalPixels lc = binary64_sum (map (\<lambda>(c, n). round64 (real n)) lc) \<and>
   totalPixels [] = Num 0 \<and>
   landcoverStats [] = [] \<and>
   length (landcoverStats lc) = min 5 (length lc) \<and>
   (\<forall>(c, n) \<in> set lc.
      percent (landcover_entry (totalPixels lc) (c, n)) =
        (if js_gt (totalPixels lc) (Num 0)
         then PercentText (toFixed1 (js_mul (js_div (round64 (real n)) (totalPixels lc)) (Num 100)))
         else PercentNumber (Num 0)) \<and>
      code (landcover_entry (totalPixels lc) (c, n)) = round64 (real c) \<and>
      (case map_of LANDCOVER_CLASSES (show_nat c) of
         Some (nm, col, cl) \<Rightarrow>
           name (landcover_entry (totalPixels lc) (c, n)) = nm \<and>
           color (landcover_entry (totalPixels lc) (c, n)) = col
       | None \<Rightarrow>
           name (landcover_entry (totalPixels lc) (c, n)) = ''Class '' @ show_nat c \<and>
           color (landcover_entry (totalPixels lc) (c, n)) = ''#64748b'') \<and>
      (map_of LANDCOVER_CLASSES (show_nat c) \<noteq> None) =
        (c \<in> {10, 20, 30, 40, 50, 60, 70, 80, 90, 95, 100}) \<and>
      digits_value (show_nat c) = c \<and>
      (\<forall>ch\<in>set (show_nat c). is_digit ch) \<and>
      show_nat c \<noteq> [] \<and>
      (show_nat c = ''0'' \<or> hd (show_nat c) \<noteq> CHR ''0'')) \<and>
   (sum_list (map snd lc) \<le> 2 ^ 53 \<longrightarrow>
      totalPixels lc = Num (real (sum_list (map snd lc))) \<and>
      (\<exists>sorted_entries.
         landcoverStats lc = take 5 sorted_entries \<and>
         length sorted_entries = length lc \<and>
         sorted_wrt (\<lambda>a b. shown_value (percent a) \<ge> shown_value (percent b)) sorted_entries \<and>
         (\<forall>v. filter (\<lambda>e. shown_value (percent e) = v) sorted_entries =
               filter (\<lambda>e. shown_value (percent e) = v)
                 (map (landcover_entry (totalPixels lc)) lc))) \<and>
      (\<forall>(c, n) \<in> set lc.
         if sum_list (map snd lc) = 0
         then percent (landcover_entry (totalPixels lc) (c, n)) = PercentNumber (Num 0)
         else \<exists>p k. js_mul (js_div (Num (real n)) (totalPixels lc)) (Num 100) = Num p \<and>
                    \<bar>p - real n / real (sum_list (map snd lc)) * 100\<bar> \<le> 2 powi (- 45) \<and>
                    percent (landcover_entry (totalPixels lc) (c, n)) =
                      PercentText (Decimal False k) \<and>
                    \<bar>real k / 10 - p\<bar> \<le> 1 / 20 \<and> k \<le> 1000))"
proof -
  let ?es = "map (landcover_entry (totalPixels lc)) lc"
  let ?cmp = "\<lambda>a b. js_sub (percent_number (percent b)) (percent_number (percent a))"
  let ?f = "\<lambda>e. shown_value (percent e)"
  let ?full = "sort_by ?cmp ?es"
  have a: "totalPixels lc = binary64_sum (map (\<lambda>(c, n). round64 (real n)) lc)"
    by (simp add: totalPixels_def binary64_sum_def)
  have b: "totalPixels [] = Num 0" by (simp add: totalPixels_def)
  have c: "landcoverStats [] = []" by (simp add: landcoverStats_def sort_by_Nil)
  have l: "length (landcoverStats lc) = min 5 (length lc)"
    by (simp add: landcoverStats_def length_sort_by min.commute)
  have e: "\<forall>(c, n) \<in> set lc.
      percent (landcover_entry (totalPixels lc) (c, n)) =
        (if js_gt (totalPixels lc) (Num 0)
         then PercentText (toFixed1 (js_mul (js_div (round64 (real n)) (totalPixels lc)) (Num 100)))
         else PercentNumber (Num 0)) \<and>
      code (landcover_entry (totalPixels lc) (c, n)) = round64 (real c) \<and>
      (case map_of LANDCOVER_CLASSES (show_nat c) of
         Some (nm, col, cl) \<Rightarrow>
           name (landcover_entry (totalPixels lc) (c, n)) = nm \<and>
           color (landcover_entry (totalPixels lc) (c, n)) = col
       | None \<Rightarrow>
           name (landcover_entry (totalPixels lc) (c, n)) = ''Class '' @ show_nat c \<and>
           color (landcover_entry (totalPixels lc) (c, n)) = ''#64748b'') \<and>
      (map_of LANDCOVER_CLASSES (show_nat c) \<noteq> None) =
        (c \<in> {10, 20, 30, 40, 50, 60, 70, 80, 90, 95, 100}) \<and>
      digits_value (show_nat c) = c \<and>
      (\<forall>ch\<in>set (show_nat c). is_digit ch) \<and>
      show_nat c \<noteq> [] \<and>
      (show_nat c = ''0'' \<or> hd (show_nat c) \<noteq> CHR ''0'')"
  proof (intro ballI, clarify)
    fix c n
    assume m: "(c, n) \<in> set lc"
    have "percent (landcover_entry (totalPixels lc) (c, n)) =
        (if js_gt (totalPixels lc) (Num 0)
         then PercentText (toFixed1 (js_mul (js_div (round64 (real n)) (totalPixels lc)) (Num 100)))
         else PercentNumber (Num 0))"
      by (simp add: landcover_entry_def)
    moreover have "code (landcover_entry (totalPixels lc) (c, n)) = round64 (real c)"
      by (simp add: landcover_entry_def parseInt_show_nat)
    moreover have "show_nat c = ''0'' \<or> hd (show_nat c) \<noteq> CHR ''0''"
      using show_nat_zero show_nat_leading [of c] by (cases "c = 0") simp_all
    ultimately show "percent (landcover_entry (totalPixels lc) (c, n)) =
        (if js_gt (totalPixels lc) (Num 0)
         then PercentText (toFixed1 (js_mul (js_div (round64 (real n)) (totalPixels lc)) (Num 100)))
         else PercentNumber (Num 0)) \<and>
      code (landcover_entry (totalPixels lc) (c, n)) = round64 (real c) \<and>
      (case map_of LANDCOVER_CLASSES (show_nat c) of
         Some (nm, col, cl) \<Rightarrow>
           name (landcover_entry (totalPixels lc) (c, n)) = nm \<and>
           color (landcover_entry (totalPixels lc) (c, n)) = col
       | None \<Rightarrow>
           name (landcover_entry (totalPixels lc) (c, n)) = ''Class '' @ show_nat c \<and>
           color (landcover_entry (totalPixels lc) (c, n)) = ''#64748b'') \<and>
      (map_of LANDCOVER_CLASSES (show_nat c) \<noteq> None) =
        (c \<in> {10, 20, 30, 40, 50, 60, 70, 80, 90, 95, 100}) \<and>
      digits_value (show_nat c) = c \<and>
      (\<forall>ch\<in>set (show_nat c). is_digit ch) \<and>
      show_nat c \<noteq> [] \<and>
      (show_nat c = ''0'' \<or> hd (show_nat c) \<noteq> CHR ''0'')"
      using landcover_entry_names [where c = c and t = "totalPixels lc" and n = n]
        known_class_codes [of c] digits_value_show_nat [of c] digits_show_nat [of c]
        show_nat_nonempty [of c]
      by (intro conjI) assumption+
  qed
  have x: "sum_list (map snd lc) \<le> 2 ^ 53 \<longrightarrow>
      totalPixels lc = Num (real (sum_list (map snd lc))) \<and>
      (\<exists>sorted_entries.
         landcoverStats lc = take 5 sorted_entries \<and>
         length sorted_entries = length lc \<and>
         sorted_wrt (\<lambda>a b. ?f a \<ge> ?f b) sorted_entries \<and>
         (\<forall>v. filter (\<lambda>e. ?f e = v) sorted_entries = filter (\<lambda>e. ?f e = v) ?es)) \<and>
      (\<forall>(c, n) \<in> set lc.
         if sum_list (map snd lc) = 0
         then percent (landcover_entry (totalPixels lc) (c, n)) = PercentNumber (Num 0)
         else \<exists>p k. js_mul (js_div (Num (real n)) (totalPixels lc)) (Num 100) = Num p \<and>
                    \<bar>p - real n / real (sum_list (map snd lc)) * 100\<bar> \<le> 2 powi (- 45) \<and>
                    percent (landcover_entry (totalPixels lc) (c, n)) =
                      PercentText (Decimal False k) \<and>
                    \<bar>real k / 10 - p\<bar> \<le> 1 / 20 \<and> k \<le> 1000)"
  proof
    assume h: "sum_list (map snd lc) \<le> 2 ^ 53"
    have t: "totalPixels lc = Num (real (sum_list (map snd lc)))"
      using h by (rule totalPixels_exact)
    have range: "\<forall>e\<in>set ?es. percent_in_range (percent e)"
      using entry_in_range [OF h] by auto
    have sign: "\<forall>x\<in>set ?es. \<forall>y\<in>set ?es. js_gt (?cmp x y) (Num 0) = (?f x < ?f y)"
      using range comparator_sign by blast
    have d1: "landcoverStats lc = take 5 ?full" by (simp add: landcoverStats_def)
    have d2: "length ?full = length lc" by (simp add: length_sort_by)
    have d3: "sorted_wrt (\<lambda>a b. ?f a \<ge> ?f b) ?full"
      using sign by (rule sorted_sort_by)
    have d4: "\<forall>v. filter (\<lambda>e. ?f e = v) ?full = filter (\<lambda>e. ?f e = v) ?es"
      using stable_sort_by [of ?es ?cmp ?f, OF sign] by blast
    from d1 d2 d3 d4 have d: "\<exists>sorted_entries.
         landcoverStats lc = take 5 sorted_entries \<and>
         length sorted_entries = length lc \<and>
         sorted_wrt (\<lambda>a b. ?f a \<ge> ?f b) sorted_entries \<and>
         (\<forall>v. filter (\<lambda>e. ?f e = v) sorted_entries = filter (\<lambda>e. ?f e = v) ?es)"
      by blast
    have p: "\<forall>(c, n) \<in> set lc.
         if sum_list (map snd lc) = 0
         then percent (landcover_entry (totalPixels lc) (c, n)) = PercentNumber (Num 0)
         else \<exists>p k. js_mul (js_div (Num (real n)) (totalPixels lc)) (Num 100) = Num p \<and>
                    \<bar>p - real n / real (sum_list (map snd lc)) * 100\<bar> \<le> 2 powi (- 45) \<and>
                    percent (landcover_entry (totalPixels lc) (c, n)) =
                      PercentText (Decimal False k) \<and>
                    \<bar>real k / 10 - p\<bar> \<le> 1 / 20 \<and> k \<le> 1000"
      using entry_percent [OF h] by blast
    from t d p show "totalPixels lc = Num (real (sum_list (map snd lc))) \<and>
      (\<exists>sorted_entries.
         landcoverStats lc = take 5 sorted_entries \<and>
         length sorted_entries = length lc \<and>
         sorted_wrt (\<lambda>a b. ?f a \<ge> ?f b) sorted_entries \<and>
         (\<forall>v. filter (\<lambda>e. ?f e = v) sorted_entries = filter (\<lambda>e. ?f e = v) ?es)) \<and>
      (\<forall>(c, n) \<in> set lc.
         if sum_list (map snd lc) = 0
         then percent (landcover_entry (totalPixels lc) (c, n)) = PercentNumber (Num 0)
         else \<exists>p k. js_mul (js_div (Num (real n)) (totalPixels lc)) (Num 100) = Num p \<and>
                    \<bar>p - real n / real (sum_list (map snd lc)) * 100\<bar> \<le> 2 powi (- 45) \<and>
                    percent (landcover_entry (totalPixels lc) (c, n)) =
                      PercentText (Decimal False k) \<and>
                    \<bar>real k / 10 - p\<bar> \<le> 1 / 20 \<and> k \<le> 1000)"
      by (intro conjI)
  qed
  from a b c l e x show ?thesis by (intro conjI)
qed

lemma show_nat_seven: "show_nat 7 = ''7''"
  by (simp add: show_nat.simps digit_char_def)

theorem landcover_breakdown_witness:
  "sum_list (map snd [(40, 23), (80, 57 :: nat)]) \<le> 2 ^ 53 \<and>
   (40, 23) \<in> set [(40, 23), (80, 57 :: nat)] \<and>
   totalPixels [(40, 23), (80, 57)] = Num 80 \<and>
   percent (landcover_entry (totalPixels [(40, 23), (80, 57)]) (40, 23)) =
     PercentText (Decimal False 287) \<and>
   name (landcover_entry (totalPixels [(40, 23), (80, 57)]) (40, 23)) = ''Cropland'' \<and>
   name (landcover_entry (totalPixels [(7, 2)]) (7, 2)) = ''Class 7'' \<and>
   map name (landcoverStats [(10, 460), (20, 461), (30, 679)]) =
     [''Grassland'', ''Shrubland'', ''Tree Cover''] \<and>
   map name (landcoverStats [(10, 1), (20, 1), (30, 2)]) =
     [''Grassland'', ''Tree Cover'', ''Shrubland'']"
proof -
  have h: "sum_list (map snd [(40, 23), (80, 57 :: nat)]) \<le> 2 ^ 53" by simp
  have m: "(40, 23) \<in> set [(40, 23), (80, 57 :: nat)]" by simp
  note w = landcover_breakdown [of "[(40, 23), (80, 57)]"]
  note wt = w [THEN conjunct2, THEN conjunct2, THEN conjunct2, THEN conjunct2, THEN conjunct2,
    THEN mp, OF h, THEN conjunct1]
  from wt have t: "totalPixels [(40, 23), (80, 57)] = Num 80" by simp
  have p: "percent (landcover_entry (totalPixels [(40, 23), (80, 57)]) (40, 23)) =
             PercentText (Decimal False 287)"
    unfolding t by (simp add: landcover_entry_def round64_numeral r64_lc_0 r64_lc_1 r64_lc_2 r64_lc_3 r64_lc_4 r64_lc_5 r64_lc_6 r64_lc_7 r64_lc_8 r64_lc_9 r64_lc_10 r64_lc_11 r64_lc_12 r64_lc_13 r64_lc_14 r64_lc_15 r64_lc_16)
  note we = w [THEN conjunct2, THEN conjunct2, THEN conjunct2, THEN conjunct2, THEN conjunct1,
    THEN bspec, OF m]
  from we have n: "name (landcover_entry (totalPixels [(40, 23), (80, 57)]) (40, 23)) = ''Cropland''"
    by (simp add: show_nat_known LANDCOVER_CLASSES_def)
  have m7: "(7, 2) \<in> set [(7, 2 :: nat)]" by simp
  note w7 = landcover_breakdown [of "[(7, 2)]", THEN conjunct2, THEN conjunct2, THEN conjunct2,
    THEN conjunct2, THEN conjunct1, THEN bspec, OF m7]
  from w7 have u: "name (landcover_entry (totalPixels [(7, 2)]) (7, 2)) = ''Class 7''"
    by (simp add: show_nat_seven LANDCOVER_CLASSES_def)
  have t2: "totalPixels [(10, 460), (20, 461), (30, 679)] = Num 1600"
    by (simp add: totalPixels_def round64_numeral)
  have o2: "map name (landcoverStats [(10, 460), (20, 461), (30, 679)]) =
              [''Grassland'', ''Shrubland'', ''Tree Cover'']"
    unfolding landcoverStats_def t2
    by (simp add: landcover_entry_def sort_by_def class_field_def LANDCOVER_CLASSES_def
        show_nat_known js_sub_def round64_numeral round64_zero r64_lc_0 r64_lc_1 r64_lc_2 r64_lc_3 r64_lc_4 r64_lc_5 r64_lc_6 r64_lc_7 r64_lc_8 r64_lc_9 r64_lc_10 r64_lc_11 r64_lc_12 r64_lc_13 r64_lc_14 r64_lc_15 r64_lc_16)
  have t3: "totalPixels [(10, 1), (20, 1), (30, 2)] = Num 4"
    by (simp add: totalPixels_def round64_numeral round64_one)
  have o3: "map name (landcoverStats [(10, 1), (20, 1), (30, 2)]) =
              [''Grassland'', ''Tree Cover'', ''Shrubland'']"
    unfolding landcoverStats_def t3
    by (simp add: landcover_entry_def sort_by_def class_field_def LANDCOVER_CLASSES_def
        show_nat_known js_sub_def round64_numeral round64_one round64_zero r64_lc_0 r64_lc_1 r64_lc_2 r64_lc_3 r64_lc_4 r64_lc_5 r64_lc_6 r64_lc_7 r64_lc_8 r64_lc_9 r64_lc_10 r64_lc_11 r64_lc_12 r64_lc_13 r64_lc_14 r64_lc_15 r64_lc_16)
  from h m t p n u o2 o3 show ?thesis by blast
qed

subsection \<open>Absent sections\<close>

text \<open>
  Claim C8. For every result the panel produces the report, and each of the four
  computations has its default when its section is absent: no NDVI gives the value 0
  and Poor, no drought and no rainfall section give Unknown, no land cover gives the
  empty breakdown, no rainfall section gives N/A. Each computation reads its own
  sections only: replacing the others leaves its outcome as it is.
\<close>

theorem classifier_tolerates_absence:
  "ResultsPanel (Some r) None = Report (summarise r) \<and>
   (ndvi r = None \<longrightarrow>
      ndviValue (summarise r) = 0 \<and> statusText (ndviStatus (summarise r)) = ''Poor'') \<and>
   (drought r = None \<and> rainfall r = None \<longrightarrow> droughtStatus (summarise r) = UnknownDrought) \<and>
   (landcover r = None \<longrightarrow> landcoverShown (summarise r) = []) \<and>
   (rainfall r = None \<longrightarrow> totalRain (summarise r) = NotAvailable) \<and>
   ndviStatus (summarise (r\<lparr>rainfall := rf, drought := dr, landcover := lc\<rparr>)) =
     ndviStatus (summarise r) \<and>
   droughtStatus (summarise (r\<lparr>ndvi := nd, landcover := lc\<rparr>)) = droughtStatus (summarise r) \<and>
   landcoverShown (summarise (r\<lparr>ndvi := nd, rainfall := rf, drought := dr\<rparr>)) =
     landcoverShown (summarise r) \<and>
   totalRain (summarise (r\<lparr>ndvi := nd, drought := dr, landcover := lc\<rparr>)) =
     totalRain (summarise r)"
proof -
  have a: "ResultsPanel (Some r) None = Report (summarise r)"
    by (simp add: ResultsPanel_def)
  have b: "ndvi r = None \<longrightarrow>
      ndviValue (summarise r) = 0 \<and> statusText (ndviStatus (summarise r)) = ''Poor''"
    by (simp add: ndviValue_summarise ndviStatus_summarise ndvi_or_zero_def getNDVIStatus_def)
  have c: "drought r = None \<and> rainfall r = None \<longrightarrow> droughtStatus (summarise r) = UnknownDrought"
    by (simp add: droughtStatus_summarise getDroughtStatus_def droughtFromRainfall_def
        rainfallData_of_def obj_or_def UnknownDrought_def)
  have d: "landcover r = None \<longrightarrow> landcoverShown (summarise r) = []"
    by (simp add: landcoverShown_summarise landcoverStats_def sort_by_Nil)
  have e: "rainfall r = None \<longrightarrow> totalRain (summarise r) = NotAvailable"
    by (simp add: totalRain_summarise rainTotal_def rainfallStats_of_def rainfallData_of_def
        obj_or_def parsed_def)
  have f: "ndviStatus (summarise (r\<lparr>rainfall := rf, drought := dr, landcover := lc\<rparr>)) =
     ndviStatus (summarise r)"
    by (simp add: ndviStatus_summarise ndvi_or_zero_def)
  have g: "droughtStatus (summarise (r\<lparr>ndvi := nd, landcover := lc\<rparr>)) =
     droughtStatus (summarise r)"
    by (simp add: droughtStatus_summarise rainfallData_of_def)
  have h: "landcoverShown (summarise (r\<lparr>ndvi := nd, rainfall := rf, drought := dr\<rparr>)) =
     landcoverShown (summarise r)"
    by (simp add: landcoverShown_summarise)
  have i: "totalRain (summarise (r\<lparr>ndvi := nd, drought := dr, landcover := lc\<rparr>)) =
     totalRain (summarise r)"
    by (simp add: totalRain_summarise rainfallData_of_def rainfallStats_of_def)
  from a b c d e f g h i show ?thesis by blast
qed

theorem classifier_tolerates_absence_witness:
  "ndvi absent_result = None \<and> rainfall absent_result = None \<and> drought absent_result = None \<and>
   landcover absent_result = None \<and>
   ResultsPanel (Some absent_result) None = Report (summarise absent_result) \<and>
   ndviValue (summarise absent_result) = 0 \<and>
   statusText (ndviStatus (summarise absent_result)) = ''Poor'' \<and>
   droughtStatus (summarise absent_result) = UnknownDrought \<and>
   landcoverShown (summarise absent_result) = [] \<and>
   totalRain (summarise absent_result) = NotAvailable"
proof -
  have a: "ndvi absent_result = None" "rainfall absent_result = None"
    "drought absent_result = None" "landcover absent_result = None"
    by (simp_all add: absent_result_def)
  from classifier_tolerates_absence [of absent_result] a show ?thesis by blast
qed

section \<open>Properties of the area selection\<close>

text \<open>The loop of \<open>circleToPolygon\<close> appends one point for each remaining index.\<close>

lemma circle_loop_eq:
  "i \<le> n \<Longrightarrow>
   circle_loop c r n i ps =
     ps @ map (\<lambda>k. \<lparr>lat = lat c + (r / 111320) * cos ((real k / real n) * 2 * pi),
                    lng = lng c + (r / (111320 * cos (lat c * pi / 180))) *
                            sin ((real k / real n) * 2 * pi)\<rparr>) [i..<n]"
proof (induction c r n i ps rule: circle_loop.induct)
  case (1 center radius numPoints i points)
  show ?case
  proof (cases "i < numPoints")
    case True
    then have "[i..<numPoints] = i # [i + 1..<numPoints]"
      by (simp add: upt_conv_Cons)
    with True 1 show ?thesis
      by (subst circle_loop.simps) (simp add: Let_def)
  next
    case False
    with 1 show ?thesis
      by (subst circle_loop.simps) simp
  qed
qed

lemma circleToPolygon_eq:
  "circleToPolygon c r n =
     map (\<lambda>k. \<lparr>lat = lat c + (r / 111320) * cos ((real k / real n) * 2 * pi),
               lng = lng c + (r / (111320 * cos (lat c * pi / 180))) *
                       sin ((real k / real n) * 2 * pi)\<rparr>) [0..<n]"
  unfolding circleToPolygon_def by (simp add: circle_loop_eq)

lemma polygonPath_click:
  "drawMode s = Some CircleMode \<Longrightarrow>
   polygonPath (handleMapClick c s) = circleToPolygon c (circleRadius s) 32"
  by (simp add: handleMapClick_def)

text \<open>
  Claim C4. A click on the map in circle mode, at centre \<open>c\<close> with the radius \<open>r\<close> of the
  state, stores a path of exactly 32 vertices, vertex \<open>i\<close> at angle \<open>2 pi i / 32\<close> with
  latitude \<open>c.lat + (r / 111320) cos angle\<close> and longitude
  \<open>c.lng + (r / (111320 cos (c.lat pi / 180))) sin angle\<close>. The path does not depend on
  the path stored before, it has at least 3 vertices, and an analysis started from the new
  state sends a request. Numbers are real numbers here, the radius need not be positive
  for any of this, and at a latitude whose cosine is 0 the quotient of the formula is the
  same division by zero on both sides.
\<close>

theorem place_circle:
  assumes "drawMode s = Some CircleMode"
  shows "length (polygonPath (handleMapClick c s)) = 32 \<and>
         (\<forall>i<32. polygonPath (handleMapClick c s) ! i =
            \<lparr>lat = lat c + (circleRadius s / 111320) * cos (2 * pi * real i / 32),
             lng = lng c + (circleRadius s / (111320 * cos (lat c * pi / 180))) *
                     sin (2 * pi * real i / 32)\<rparr>) \<and>
         circleCenter (handleMapClick c s) = Some c \<and>
         (\<forall>prior. polygonPath (handleMapClick c (s\<lparr>polygonPath := prior\<rparr>)) =
                    polygonPath (handleMapClick c s)) \<and>
         3 \<le> length (polygonPath (handleMapClick c s)) \<and>
         snd (analyze_begin (handleMapClick c s)) \<noteq> None"
proof -
  have p: "polygonPath (handleMapClick c s) = circleToPolygon c (circleRadius s) 32"
    using assms by (rule polygonPath_click)
  have len: "length (polygonPath (handleMapClick c s)) = 32"
    by (simp add: p circleToPolygon_eq)
  have pts: "\<forall>i<32. polygonPath (handleMapClick c s) ! i =
            \<lparr>lat = lat c + (circleRadius s / 111320) * cos (2 * pi * real i / 32),
             lng = lng c + (circleRadius s / (111320 * cos (lat c * pi / 180))) *
                     sin (2 * pi * real i / 32)\<rparr>"
    by (simp add: p circleToPolygon_eq mult.commute mult.left_commute)
  have cen: "circleCenter (handleMapClick c s) = Some c"
    using assms by (simp add: handleMapClick_def)
  have rep: "\<forall>prior. polygonPath (handleMapClick c (s\<lparr>polygonPath := prior\<rparr>)) =
                    polygonPath (handleMapClick c s)"
    using assms by (simp add: handleMapClick_def)
  have rdy: "snd (analyze_begin (handleMapClick c s)) \<noteq> None"
    using len by (simp add: analyze_begin_def)
  from len pts cen rep rdy show ?thesis by simp
qed

theorem place_circle_witness:
  "drawMode example_state = Some CircleMode \<and>
   length (polygonPath (handleMapClick \<lparr>lat = 20.5937, lng = 78.9629\<rparr> example_state)) = 32 \<and>
   polygonPath (handleMapClick \<lparr>lat = 20.5937, lng = 78.9629\<rparr> example_state) ! 0 =
     \<lparr>lat = 20.5937 + 250 / 111320, lng = 78.9629\<rparr>"
proof -
  have m: "drawMode example_state = Some CircleMode"
    by (simp add: example_state_def)
  have r: "circleRadius example_state = 250"
    by (simp add: example_state_def)
  from place_circle [OF m, of "\<lparr>lat = 20.5937, lng = 78.9629\<rparr>"] m r show ?thesis
    by simp
qed

subsection \<open>Submitting the selection\<close>

lemma build_geometry_ring:
  assumes "pts \<noteq> []"
  shows "build_geometry pts =
           \<lparr>geometryType = ''Polygon'',
            coordinates = [map (\<lambda>p. Some [lng p, lat p]) pts @ [Some [lng (hd pts), lat (hd pts)]]]\<rparr>"
  using assms by (cases pts) (simp_all add: build_geometry_def js_index_def Let_def)

text \<open>
  Claim C5. With at least 3 vertices, the analysis sends one request whose geometry is a
  Polygon with a single ring. The ring has one pair more than there are vertices, pair
  \<open>i\<close> is longitude then latitude of vertex \<open>i\<close>, and the last pair is the first
  one again.
\<close>

theorem request_ring:
  assumes "3 \<le> length (polygonPath s)"
  shows "\<exists>req r. handleAnalyze service s =
                    (analyze_settle (service req) (s\<lparr>isLoading := True, error := None\<rparr>), [req]) \<and>
                 geometryType (geometry req) = ''Polygon'' \<and>
                 coordinates (geometry req) = [r] \<and>
                 length r = length (polygonPath s) + 1 \<and>
                 (\<forall>i<length (polygonPath s).
                    r ! i = Some [lng (polygonPath s ! i), lat (polygonPath s ! i)]) \<and>
                 r ! length (polygonPath s) = r ! 0 \<and>
                 last r = hd r"
proof -
  let ?pts = "polygonPath s"
  let ?r = "map (\<lambda>p. Some [lng p, lat p]) ?pts @ [Some [lng (hd ?pts), lat (hd ?pts)]]"
  let ?req = "\<lparr>path = ''/analyze'', geometry = build_geometry ?pts, timeout = 120000\<rparr>"
  from assms have ne: "?pts \<noteq> []" by auto
  have g: "build_geometry ?pts = \<lparr>geometryType = ''Polygon'', coordinates = [?r]\<rparr>"
    using ne by (rule build_geometry_ring)
  have h: "handleAnalyze service s =
             (analyze_settle (service ?req) (s\<lparr>isLoading := True, error := None\<rparr>), [?req])"
    using assms by (simp add: handleAnalyze_def analyze_begin_def)
  have l: "length ?r = length ?pts + 1" by simp
  have n: "\<forall>i<length ?pts. ?r ! i = Some [lng (?pts ! i), lat (?pts ! i)]"
    by (simp add: nth_append)
  have z: "?r ! length ?pts = ?r ! 0"
    using ne by (simp add: nth_append hd_conv_nth)
  have e: "last ?r = hd ?r"
    using ne by (cases ?pts) simp_all
  from g h l n z e show ?thesis
    by (intro exI [of _ ?req] exI [of _ ?r]) simp
qed

theorem request_ring_witness:
  "3 \<le> length (polygonPath example_triangle) \<and>
   (\<exists>req. snd (handleAnalyze (\<lambda>q. Resolved None) example_triangle) = [req] \<and>
          coordinates (geometry req) =
            [[Some [20, 10], Some [21, 10], Some [20, 11], Some [20, 10]]])"
proof -
  have a: "3 \<le> length (polygonPath example_triangle)"
    by (simp add: example_triangle_def)
  from request_ring [OF a, of "\<lambda>q. Resolved None"]
  obtain req r where
    h: "handleAnalyze (\<lambda>q. Resolved None) example_triangle =
          (analyze_settle (Resolved None) (example_triangle\<lparr>isLoading := True, error := None\<rparr>), [req])"
    and c: "coordinates (geometry req) = [r]"
    and l: "length r = length (polygonPath example_triangle) + 1"
    and n: "\<forall>i<length (polygonPath example_triangle).
              r ! i = Some [lng (polygonPath example_triangle ! i), lat (polygonPath example_triangle ! i)]"
    and z: "r ! length (polygonPath example_triangle) = r ! 0"
    by blast
  have l4: "length r = 4" using l by (simp add: example_triangle_def)
  have "r ! 0 = Some [20, 10]" "r ! 1 = Some [21, 10]" "r ! 2 = Some [20, 11]"
    using n by (simp_all add: example_triangle_def)
  moreover have len3: "length (polygonPath example_triangle) = 3"
    by (simp add: example_triangle_def)
  moreover have "r ! 3 = r ! 0" using z unfolding len3 .
  ultimately have "r = [Some [20, 10], Some [21, 10], Some [20, 11], Some [20, 10]]"
    using l4 by (intro nth_equalityI) (auto simp: less_Suc_eq numeral_eq_Suc)
  with a h c show ?thesis by simp
qed

text \<open>
  Claim C7. With fewer than 3 vertices, the analysis sets the error message asking for a
  farm area, which the panel then shows, sends no request, and changes nothing else: the
  selection, the loading flag and the stored result are as before.
\<close>

theorem invalid_selection:
  assumes "length (polygonPath s) < 3"
  shows "handleAnalyze service s = (s\<lparr>error := Some ''Please select a farm area first.''\<rparr>, []) \<and>
         snd (handleAnalyze service s) = [] \<and>
         polygonPath (fst (handleAnalyze service s)) = polygonPath s \<and>
         circleCenter (fst (handleAnalyze service s)) = circleCenter s \<and>
         polygon (fst (handleAnalyze service s)) = polygon s \<and>
         analysisResults (fst (handleAnalyze service s)) = analysisResults s \<and>
         isLoading (fst (handleAnalyze service s)) = isLoading s \<and>
         ResultsPanel (analysisResults (fst (handleAnalyze service s)))
                      (error (fst (handleAnalyze service s))) =
           ErrorPanel ''Please select a farm area first.''"
  using assms by (simp add: handleAnalyze_def analyze_begin_def ResultsPanel_def)

theorem invalid_selection_witness:
  "length (polygonPath example_short) < 3 \<and>
   handleAnalyze (\<lambda>q. Resolved None) example_short =
     (example_short\<lparr>error := Some ''Please select a farm area first.''\<rparr>, []) \<and>
   analysisResults (fst (handleAnalyze (\<lambda>q. Resolved None) example_short)) = Some example_result"
proof -
  have a: "length (polygonPath example_short) < 3"
    by (simp add: example_short_def)
  from invalid_selection [OF a, of "\<lambda>q. Resolved None"] a show ?thesis
    by (simp add: example_short_def)
qed

text \<open>
  Claim C9. When the request fails, the error is the message of the server if the
  response carries one that is not empty, and the generic message otherwise; the panel
  shows it; and the stored result is the one from before the request.
\<close>

theorem request_failed:
  "error (analyze_settle (Rejected err) s) =
     Some (case server_message err of
             None \<Rightarrow> ''Failed to analyze the area. Please try again.''
           | Some m \<Rightarrow> if m = [] then ''Failed to analyze the area. Please try again.'' else m) \<and>
   ResultsPanel (analysisResults (analyze_settle (Rejected err) s))
                (error (analyze_settle (Rejected err) s)) =
     ErrorPanel (case server_message err of
                   None \<Rightarrow> ''Failed to analyze the area. Please try again.''
                 | Some m \<Rightarrow>
                     if m = [] then ''Failed to analyze the area. Please try again.'' else m) \<and>
   analysisResults (analyze_settle (Rejected err) s) = analysisResults s \<and>
   analysisResults (fst (handleAnalyze (\<lambda>req. Rejected err) s)) = analysisResults s \<and>
   (3 \<le> length (polygonPath s) \<longrightarrow>
      error (fst (handleAnalyze (\<lambda>req. Rejected err) s)) =
        error (analyze_settle (Rejected err) s))"
  by (simp add: analyze_settle_def failure_message_def server_message_def handleAnalyze_def
      analyze_begin_def ResultsPanel_def split: option.splits)

theorem request_failed_witness:
  "3 \<le> length (polygonPath example_triangle) \<and>
   error (fst (handleAnalyze
      (\<lambda>req. Rejected \<lparr>response = Some \<lparr>responseData = Some \<lparr>errorField = Some ''quota''\<rparr>\<rparr>\<rparr>)
      example_triangle)) = Some ''quota'' \<and>
   error (fst (handleAnalyze (\<lambda>req. Rejected \<lparr>response = None\<rparr>) example_triangle)) =
     Some ''Failed to analyze the area. Please try again.'' \<and>
   analysisResults (fst (handleAnalyze (\<lambda>req. Rejected \<lparr>response = None\<rparr>) example_triangle)) =
     Some example_result"
proof -
  have a: "3 \<le> length (polygonPath example_triangle)"
    by (simp add: example_triangle_def)
  have r: "analysisResults example_triangle = Some example_result"
    by (simp add: example_triangle_def)
  from request_failed [of "\<lparr>response = Some \<lparr>responseData = Some \<lparr>errorField = Some ''quota''\<rparr>\<rparr>\<rparr>"
         example_triangle]
       request_failed [of "\<lparr>response = None\<rparr>" example_triangle] a r
  show ?thesis by (simp add: server_message_def)
qed

subsection \<open>Clearing the selection\<close>

text \<open>
  Claim C10. In every state, clearing empties the vertex list, removes the circle centre
  and the polygon overlay, so that neither shape is drawn, and discards the stored
  result, so that a panel without an error is back at the state without a result.
\<close>

theorem clear_boundary:
  "polygonPath (handleClearBoundary s) = [] \<and>
   circleCenter (handleClearBoundary s) = None \<and>
   polygon (handleClearBoundary s) = None \<and>
   (\<forall>p. polygon s = Some p \<longrightarrow> p \<notin> onMap (handleClearBoundary s)) \<and>
   \<not> showsCircle (handleClearBoundary s) \<and>
   \<not> showsPolygon (handleClearBoundary s) \<and>
   analysisResults (handleClearBoundary s) = None \<and>
   (error s = None \<longrightarrow>
      ResultsPanel (analysisResults (handleClearBoundary s)) (error (handleClearBoundary s)) =
        NoAnalysisYet)"
  by (simp add: handleClearBoundary_def showsCircle_def showsPolygon_def ResultsPanel_def
      split: option.splits)

theorem clear_boundary_witness:
  "polygon example_triangle = Some 7 \<and> error example_triangle = None \<and>
   analysisResults example_triangle \<noteq> None \<and>
   7 \<notin> onMap (handleClearBoundary example_triangle) \<and>
   analysisResults (handleClearBoundary example_triangle) = None \<and>
   ResultsPanel (analysisResults (handleClearBoundary example_triangle))
     (error (handleClearBoundary example_triangle)) = NoAnalysisYet"
proof -
  have a: "polygon example_triangle = Some 7" "error example_triangle = None"
    "analysisResults example_triangle \<noteq> None"
    by (simp_all add: example_triangle_def)
  from clear_boundary [of example_triangle] a show ?thesis by blast
qed

end
